theory Spec2Isabelle
  imports Complex_Main
begin

section \<open>Numbers: the C++ double\<close>

text \<open>
  The source computes with \<^verbatim>\<open>double\<close>. A double is modelled as a real number or one of
  the three non-finite values of IEEE 754: the two infinities and NaN. Arithmetic on
  finite values is the exact arithmetic of the reals (rounding and overflow are left
  out, and the sign of zero is not kept: a zero divisor counts as \<open>+0\<close>); arithmetic that
  involves a non-finite value, and division by zero, follow IEEE 754: \<open>x / 0\<close> is an
  infinity for \<open>x \<noteq> 0\<close> and NaN for \<open>x = 0\<close>, \<open>0 * \<infinity>\<close> and \<open>\<infinity> - \<infinity>\<close> are NaN, and NaN
  propagates.
\<close>

datatype dbl = Fin real | PInf | MInf | NaN

fun signed_inf :: "bool \<Rightarrow> dbl" where
  "signed_inf True = PInf"
| "signed_inf False = MInf"

instantiation dbl :: "{zero, one, plus, uminus, minus, times, inverse}"
begin

definition zero_dbl :: dbl where
  "zero_dbl = Fin 0"

definition one_dbl :: dbl where
  "one_dbl = Fin 1"

fun plus_dbl :: "dbl \<Rightarrow> dbl \<Rightarrow> dbl" where
  "plus_dbl (Fin a) (Fin b) = Fin (a + b)"
| "plus_dbl NaN _ = NaN"
| "plus_dbl _ NaN = NaN"
| "plus_dbl PInf MInf = NaN"
| "plus_dbl MInf PInf = NaN"
| "plus_dbl PInf _ = PInf"
| "plus_dbl _ PInf = PInf"
| "plus_dbl MInf _ = MInf"
| "plus_dbl _ MInf = MInf"

fun uminus_dbl :: "dbl \<Rightarrow> dbl" where
  "uminus_dbl (Fin a) = Fin (- a)"
| "uminus_dbl PInf = MInf"
| "uminus_dbl MInf = PInf"
| "uminus_dbl NaN = NaN"

definition minus_dbl :: "dbl \<Rightarrow> dbl \<Rightarrow> dbl" where
  "minus_dbl a b = a + (- b)"

fun times_dbl :: "dbl \<Rightarrow> dbl \<Rightarrow> dbl" where
  "times_dbl (Fin a) (Fin b) = Fin (a * b)"
| "times_dbl NaN _ = NaN"
| "times_dbl _ NaN = NaN"
| "times_dbl (Fin a) PInf = (if a = 0 then NaN else signed_inf (0 < a))"
| "times_dbl (Fin a) MInf = (if a = 0 then NaN else signed_inf (a < 0))"
| "times_dbl PInf (Fin b) = (if b = 0 then NaN else signed_inf (0 < b))"
| "times_dbl MInf (Fin b) = (if b = 0 then NaN else signed_inf (b < 0))"
| "times_dbl PInf PInf = PInf"
| "times_dbl MInf MInf = PInf"
| "times_dbl PInf MInf = MInf"
| "times_dbl MInf PInf = MInf"

fun divide_dbl :: "dbl \<Rightarrow> dbl \<Rightarrow> dbl" where
  "divide_dbl (Fin a) (Fin b) =
     (if b = 0 then (if a = 0 then NaN else signed_inf (0 < a)) else Fin (a / b))"
| "divide_dbl NaN _ = NaN"
| "divide_dbl _ NaN = NaN"
| "divide_dbl (Fin a) PInf = Fin 0"
| "divide_dbl (Fin a) MInf = Fin 0"
| "divide_dbl PInf (Fin b) = signed_inf (0 \<le> b)"
| "divide_dbl MInf (Fin b) = signed_inf (b < 0)"
| "divide_dbl PInf PInf = NaN"
| "divide_dbl PInf MInf = NaN"
| "divide_dbl MInf PInf = NaN"
| "divide_dbl MInf MInf = NaN"

definition inverse_dbl :: "dbl \<Rightarrow> dbl" where
  "inverse_dbl a = divide (Fin 1) a"

instance ..

end

text \<open>Addition is associative and commutative, with zero neutral, also on the non-finite values.\<close>

instantiation dbl :: comm_monoid_add
begin

instance
proof
  fix x y z :: dbl
  show "0 + x = x"
    by (cases x) (simp_all add: zero_dbl_def)
  show "x + y = y + x"
    by (cases x; cases y; simp)
  show "x + y + z = x + (y + z)"
    by (cases x; cases y; cases z; simp)
qed

end

text \<open>\<^verbatim>\<open>sqrt\<close> of \<^verbatim>\<open><cmath>\<close>: NaN below zero.\<close>

fun dsqrt :: "dbl \<Rightarrow> dbl" where
  "dsqrt (Fin a) = (if a < 0 then NaN else Fin (sqrt a))"
| "dsqrt PInf = PInf"
| "dsqrt MInf = NaN"
| "dsqrt NaN = NaN"

text \<open>The comparison \<^verbatim>\<open>==\<close> of two doubles: a NaN equals nothing, itself included.\<close>

definition deq :: "dbl \<Rightarrow> dbl \<Rightarrow> bool" where
  "deq a b \<longleftrightarrow> a \<noteq> NaN \<and> b \<noteq> NaN \<and> a = b"

text \<open>\<^verbatim>\<open>operator==\<close> of \<^verbatim>\<open>std::vector<double>\<close>: equal sizes and equal elements.\<close>

definition vector_eq :: "dbl list \<Rightarrow> dbl list \<Rightarrow> bool" where
  "vector_eq xs ys \<longleftrightarrow> length xs = length ys \<and> list_all2 deq xs ys"

fun is_Fin :: "dbl \<Rightarrow> bool" where
  "is_Fin (Fin a) = True"
| "is_Fin _ = False"

section \<open>Vectors and tensors\<close>

text \<open>
  Modelled from the spec: \<^verbatim>\<open>Vector\<close> (three doubles) and \<^verbatim>\<open>Tensor\<close> (three by three
  doubles, row by row) are declared in headers that are not among the sources; the spec
  names them "generic small fixed-size vector/3x3-tensor/4x4-matrix arithmetic". Their
  arithmetic is componentwise, \<^verbatim>\<open>matmul\<close> is the product of a tensor and a vector,
  \<^verbatim>\<open>Tensor(v1, v2)\<close> and \<^verbatim>\<open>extProduct\<close> the outer product, and a default-constructed
  one is zero.
\<close>

datatype Vector = Vector dbl dbl dbl

instantiation Vector :: "{zero, plus, uminus, minus}"
begin

definition zero_Vector :: Vector where
  "zero_Vector = Vector (Fin 0) (Fin 0) (Fin 0)"

fun plus_Vector :: "Vector \<Rightarrow> Vector \<Rightarrow> Vector" where
  "plus_Vector (Vector a b c) (Vector a' b' c') = Vector (a + a') (b + b') (c + c')"

fun uminus_Vector :: "Vector \<Rightarrow> Vector" where
  "uminus_Vector (Vector a b c) = Vector (- a) (- b) (- c)"

fun minus_Vector :: "Vector \<Rightarrow> Vector \<Rightarrow> Vector" where
  "minus_Vector (Vector a b c) (Vector a' b' c') = Vector (a - a') (b - b') (c - c')"

instance ..

end

instantiation Vector :: comm_monoid_add
begin

instance
proof
  fix u v w :: Vector
  show "0 + u = u"
    by (cases u) (simp add: zero_Vector_def zero_dbl_def [symmetric])
  show "u + v = v + u"
    by (cases u; cases v; simp add: add.commute)
  show "u + v + w = u + (v + w)"
    by (cases u; cases v; cases w; simp add: add.assoc)
qed

end

text \<open>\<^verbatim>\<open>double * Vector\<close> and \<^verbatim>\<open>Vector * double\<close>.\<close>

fun smul :: "dbl \<Rightarrow> Vector \<Rightarrow> Vector" where
  "smul w (Vector a b c) = Vector (w * a) (w * b) (w * c)"

fun vmul :: "Vector \<Rightarrow> dbl \<Rightarrow> Vector" where
  "vmul (Vector a b c) w = Vector (a * w) (b * w) (c * w)"

fun dotProduct :: "Vector \<Rightarrow> Vector \<Rightarrow> dbl" where
  "dotProduct (Vector a b c) (Vector a' b' c') = a * a' + b * b' + c * c'"

definition modulo2 :: "Vector \<Rightarrow> dbl" where
  "modulo2 v = dotProduct v v"

datatype Tensor = Tensor dbl dbl dbl  dbl dbl dbl  dbl dbl dbl

instantiation Tensor :: "{zero, plus, uminus, minus}"
begin

definition zero_Tensor :: Tensor where
  "zero_Tensor = Tensor (Fin 0) (Fin 0) (Fin 0) (Fin 0) (Fin 0) (Fin 0) (Fin 0) (Fin 0) (Fin 0)"

fun plus_Tensor :: "Tensor \<Rightarrow> Tensor \<Rightarrow> Tensor" where
  "plus_Tensor (Tensor a b c d e f g h i) (Tensor a' b' c' d' e' f' g' h' i') =
     Tensor (a + a') (b + b') (c + c') (d + d') (e + e') (f + f') (g + g') (h + h') (i + i')"

fun uminus_Tensor :: "Tensor \<Rightarrow> Tensor" where
  "uminus_Tensor (Tensor a b c d e f g h i) =
     Tensor (- a) (- b) (- c) (- d) (- e) (- f) (- g) (- h) (- i)"

fun minus_Tensor :: "Tensor \<Rightarrow> Tensor \<Rightarrow> Tensor" where
  "minus_Tensor (Tensor a b c d e f g h i) (Tensor a' b' c' d' e' f' g' h' i') =
     Tensor (a - a') (b - b') (c - c') (d - d') (e - e') (f - f') (g - g') (h - h') (i - i')"

instance ..

end

text \<open>\<^verbatim>\<open>double * Tensor\<close> and \<^verbatim>\<open>Tensor * double\<close>.\<close>

fun tsmul :: "dbl \<Rightarrow> Tensor \<Rightarrow> Tensor" where
  "tsmul w (Tensor a b c d e f g h i) =
     Tensor (w * a) (w * b) (w * c) (w * d) (w * e) (w * f) (w * g) (w * h) (w * i)"

fun tmul :: "Tensor \<Rightarrow> dbl \<Rightarrow> Tensor" where
  "tmul (Tensor a b c d e f g h i) w =
     Tensor (a * w) (b * w) (c * w) (d * w) (e * w) (f * w) (g * w) (h * w) (i * w)"

text \<open>\<^verbatim>\<open>Tensor(v1, v2)\<close> and \<^verbatim>\<open>extProduct(v1, v2)\<close>: the outer product.\<close>

fun extProduct :: "Vector \<Rightarrow> Vector \<Rightarrow> Tensor" where
  "extProduct (Vector a b c) (Vector a' b' c') =
     Tensor (a * a') (a * b') (a * c') (b * a') (b * b') (b * c') (c * a') (c * b') (c * c')"

fun matmul :: "Tensor \<Rightarrow> Vector \<Rightarrow> Vector" where
  "matmul (Tensor a b c d e f g h i) (Vector x y z) =
     Vector (a * x + b * y + c * z) (d * x + e * y + f * z) (g * x + h * y + i * z)"

fun transpose :: "Tensor \<Rightarrow> Tensor" where
  "transpose (Tensor a b c d e f g h i) = Tensor a d g b e h c f i"

text \<open>\<^verbatim>\<open>t[i][j]\<close> for \<open>i\<close> and \<open>j\<close> in \<open>0..2\<close>.\<close>

fun tget :: "Tensor \<Rightarrow> nat \<Rightarrow> nat \<Rightarrow> dbl" where
  "tget (Tensor a b c d e f g h i) r s =
     (if r = 0 then (if s = 0 then a else if s = 1 then b else c)
      else if r = 1 then (if s = 0 then d else if s = 1 then e else f)
      else (if s = 0 then g else if s = 1 then h else i))"

section \<open>Errors\<close>

text \<open>
  \<^verbatim>\<open>plumed_merror\<close> and a failed \<^verbatim>\<open>plumed_massert\<close> throw an exception that carries the
  message: \<open>Fatal\<close>. Reading or writing a \<^verbatim>\<open>std::vector\<close> past its end is undefined
  behaviour in the source; the model returns \<open>OutOfRange\<close> exactly where a loop would do so.
\<close>

datatype error = Fatal string | OutOfRange

section \<open>The method without rotation\<close>

text \<open>The first loop of \<^verbatim>\<open>simpleAlignment\<close>: the four weighted centres.\<close>

definition simple_centers ::
  "dbl list \<Rightarrow> dbl list \<Rightarrow> Vector list \<Rightarrow> Vector list \<Rightarrow> nat
    \<Rightarrow> Vector \<times> Vector \<times> Vector \<times> Vector" where
  "simple_centers align displace positions reference n =
     fold (\<lambda>i (apositions, areference, dpositions, dreference).
        let aw = align ! i; dw = displace ! i
        in (apositions + vmul (positions ! i) aw,
            areference + vmul (reference ! i) aw,
            dpositions + vmul (positions ! i) dw,
            dreference + vmul (reference ! i) dw))
       [0..<n] (0, 0, 0, 0)"

text \<open>The second loop: the distance and the derivatives.\<close>

definition simple_dist_loop ::
  "dbl list \<Rightarrow> dbl list \<Rightarrow> Vector list \<Rightarrow> Vector list \<Rightarrow> Vector \<Rightarrow> Vector \<Rightarrow> Vector
    \<Rightarrow> nat \<Rightarrow> dbl \<times> Vector list \<Rightarrow> dbl \<times> Vector list" where
  "simple_dist_loop align displace positions reference apositions areference shift n =
     fold (\<lambda>i (dist, derivatives).
        let d = (positions ! i - apositions) - (reference ! i - areference)
        in (dist + displace ! i * modulo2 d,
            derivatives[i := smul (Fin 2) (smul (displace ! i) d + smul (align ! i) shift)]))
       [0..<n]"

text \<open>The loop of the square-root branch: \<^verbatim>\<open>derivatives[i]*=(0.5/dist)\<close>.\<close>

definition scale_derivatives :: "dbl \<Rightarrow> nat \<Rightarrow> Vector list \<Rightarrow> Vector list" where
  "scale_derivatives xx n =
     fold (\<lambda>i derivatives. derivatives[i := vmul (derivatives ! i) xx]) [0..<n]"

definition simpleAlignment ::
  "dbl list \<Rightarrow> dbl list \<Rightarrow> Vector list \<Rightarrow> Vector list \<Rightarrow> Vector list \<Rightarrow> bool
    \<Rightarrow> error + (dbl \<times> Vector list)" where
  "simpleAlignment align displace positions reference derivatives squared =
     (let n = length reference in
      if n \<le> length align \<and> n \<le> length displace \<and> n \<le> length positions
         \<and> n \<le> length derivatives
      then
        let (apositions, areference, dpositions, dreference) =
              simple_centers align displace positions reference n;
            shift = (apositions - areference) - (dpositions - dreference);
            (dist, derivatives1) =
              simple_dist_loop align displace positions reference apositions areference
                shift n (Fin 0, derivatives)
        in if \<not> squared
           then let dist2 = dsqrt dist
                in Inr (dist2, scale_derivatives (Fin (1/2) / dist2) n derivatives1)
           else Inr (dist, derivatives1)
      else Inl OutOfRange)"

section \<open>The facade: an RMSD object\<close>

datatype AlignmentMethod = SIMPLE | OPTIMAL | OPTIMAL_FAST

text \<open>
  The members of \<^verbatim>\<open>class RMSD\<close> that the source file reads and writes. The members
  \<^verbatim>\<open>reference\<close>, \<^verbatim>\<open>align\<close> and \<^verbatim>\<open>displace\<close> are written \<open>this_reference\<close>, \<open>this_align\<close> and
  \<open>this_displace\<close> (the source's \<^verbatim>\<open>this->align\<close>), since the core-data object below has
  members of the same names.
\<close>

record RMSD =
  alignmentMethod :: AlignmentMethod
  this_reference :: "Vector list"
  this_align :: "dbl list"
  this_displace :: "dbl list"
  reference_center :: Vector
  reference_center_is_calculated :: bool
  reference_center_is_removed :: bool
  positions_center :: Vector
  positions_center_is_calculated :: bool
  positions_center_is_removed :: bool

text \<open>
  The constructor \<^verbatim>\<open>RMSD()\<close> sets the method and two of the flags; the vectors are empty
  and the two centres zero. The two flags it leaves unset are parameters here.
\<close>

definition RMSD_new :: "bool \<Rightarrow> bool \<Rightarrow> RMSD" where
  "RMSD_new ref_removed pos_removed =
     \<lparr> alignmentMethod = SIMPLE, this_reference = [], this_align = [], this_displace = [],
       reference_center = 0, reference_center_is_calculated = False,
       reference_center_is_removed = ref_removed,
       positions_center = 0, positions_center_is_calculated = False,
       positions_center_is_removed = pos_removed \<rparr>"

definition setType :: "string \<Rightarrow> RMSD \<Rightarrow> error + RMSD" where
  "setType mytype obj =
     (let obj = obj\<lparr>alignmentMethod := SIMPLE\<rparr> in
      if mytype = ''SIMPLE'' then Inr (obj\<lparr>alignmentMethod := SIMPLE\<rparr>)
      else if mytype = ''OPTIMAL'' then Inr (obj\<lparr>alignmentMethod := OPTIMAL\<rparr>)
      else if mytype = ''OPTIMAL-FAST'' then Inr (obj\<lparr>alignmentMethod := OPTIMAL_FAST\<rparr>)
      else Inl (Fatal (''unknown RMSD type'' @ mytype)))"

definition clear :: "RMSD \<Rightarrow> RMSD" where
  "clear obj =
     obj\<lparr> this_reference := [],
          reference_center_is_calculated := False,
          reference_center_is_removed := False,
          this_align := [],
          this_displace := [],
          positions_center_is_calculated := False,
          positions_center_is_removed := False \<rparr>"

fun getMethod :: "RMSD \<Rightarrow> string" where
  "getMethod obj =
     (case alignmentMethod obj of
        SIMPLE \<Rightarrow> ''SIMPLE''
      | OPTIMAL \<Rightarrow> ''OPTIMAL''
      | OPTIMAL_FAST \<Rightarrow> ''OPTIMAL-FAST'')"

text \<open>
  \<^verbatim>\<open>setReference\<close>: uniform weights \<open>1/n\<close>, the centre accumulated onto the stored
  \<^verbatim>\<open>reference_center\<close> and subtracted from every point.
\<close>

definition setReference :: "Vector list \<Rightarrow> RMSD \<Rightarrow> error + RMSD" where
  "setReference ref obj =
     (let n = length ref in
      if this_align obj \<noteq> []
      then Inl (Fatal ''you should first clear() an RMSD object, then set a new reference'')
      else if this_displace obj \<noteq> []
      then Inl (Fatal ''you should first clear() an RMSD object, then set a new reference'')
      else
        let al = replicate n (Fin 1 / Fin (real n));
            di = replicate n (Fin 1 / Fin (real n));
            rc = fold (\<lambda>i c. c + vmul (ref ! i) (al ! i)) [0..<n] (reference_center obj);
            ref' = fold (\<lambda>i r. r[i := r ! i - rc]) [0..<n] ref
        in Inr (obj\<lparr> this_reference := ref', this_align := al, this_displace := di,
                     reference_center := rc,
                     reference_center_is_calculated := True,
                     reference_center_is_removed := True \<rparr>))"




text \<open>The loops of \<^verbatim>\<open>setAlign\<close> and \<^verbatim>\<open>setDisplace\<close>: the total weight, and the scaling.\<close>

definition total_weight :: "dbl list \<Rightarrow> nat \<Rightarrow> dbl" where
  "total_weight ws n = fold (\<lambda>i w. w + ws ! i) [0..<n] (Fin 0)"

definition scale_weights :: "dbl \<Rightarrow> nat \<Rightarrow> dbl list \<Rightarrow> dbl list" where
  "scale_weights inv_w n = fold (\<lambda>i ws. ws[i := ws ! i * inv_w]) [0..<n]"


definition setDisplace :: "dbl list \<Rightarrow> bool \<Rightarrow> RMSD \<Rightarrow> error + RMSD" where
  "setDisplace displace do_normalize obj =
     (let n = length (this_reference obj) in
      if length (this_displace obj) \<noteq> length displace
      then Inl (Fatal ''mismatch in dimension of align/displace arrays'')
      else if length displace < n then Inl OutOfRange
      else
        let w = total_weight displace n;
            inv_w = Fin 1 / w;
            di = (if do_normalize then scale_weights inv_w n displace else displace)
        in Inr (obj\<lparr>this_displace := di\<rparr>))"

section \<open>The quaternion engine: the pieces of \<^verbatim>\<open>doCoreCalc\<close>\<close>

text \<open>
  A \<^verbatim>\<open>Matrix<double>\<close> of four rows and columns, and the C arrays of tensors, are
  functions of their indices; \<open>aset\<close> is the assignment \<^verbatim>\<open>m[i][j]=v\<close>.
\<close>

type_synonym matrix4 = "nat \<Rightarrow> nat \<Rightarrow> dbl"

definition aset :: "(nat \<Rightarrow> nat \<Rightarrow> 'a) \<Rightarrow> nat \<Rightarrow> nat \<Rightarrow> 'a \<Rightarrow> (nat \<Rightarrow> nat \<Rightarrow> 'a)" where
  "aset m i j v = m(i := (m i)(j := v))"

text \<open>The second moments with respect to the centres: the first loop of \<^verbatim>\<open>doCoreCalc\<close>.\<close>

definition moments ::
  "dbl list \<Rightarrow> Vector list \<Rightarrow> Vector list \<Rightarrow> Vector \<Rightarrow> Vector \<Rightarrow> nat \<Rightarrow> dbl \<times> dbl \<times> Tensor" where
  "moments align positions reference cp cr n =
     fold (\<lambda>iat (rr00, rr11, rr01).
        let w = align ! iat
        in (rr00 + dotProduct (positions ! iat - cp) (positions ! iat - cp) * w,
            rr11 + dotProduct (reference ! iat - cr) (reference ! iat - cr) * w,
            rr01 + tmul (extProduct (positions ! iat - cp) (reference ! iat - cr)) w))
       [0..<n] (Fin 0, Fin 0, 0)"

text \<open>The quaternion matrix, assignment by assignment.\<close>

definition key_matrix :: "Tensor \<Rightarrow> matrix4" where
  "key_matrix rr01 =
     (let m = (\<lambda>i j. Fin 0);
          m = aset m 0 0 (Fin 2 * (- tget rr01 0 0 - tget rr01 1 1 - tget rr01 2 2));
          m = aset m 1 1 (Fin 2 * (- tget rr01 0 0 + tget rr01 1 1 + tget rr01 2 2));
          m = aset m 2 2 (Fin 2 * (tget rr01 0 0 - tget rr01 1 1 + tget rr01 2 2));
          m = aset m 3 3 (Fin 2 * (tget rr01 0 0 + tget rr01 1 1 - tget rr01 2 2));
          m = aset m 0 1 (Fin 2 * (- tget rr01 1 2 + tget rr01 2 1));
          m = aset m 0 2 (Fin 2 * (tget rr01 0 2 - tget rr01 2 0));
          m = aset m 0 3 (Fin 2 * (- tget rr01 0 1 + tget rr01 1 0));
          m = aset m 1 2 (Fin 2 * (- tget rr01 0 1 - tget rr01 1 0));
          m = aset m 1 3 (Fin 2 * (- tget rr01 0 2 - tget rr01 2 0));
          m = aset m 2 3 (Fin 2 * (- tget rr01 1 2 - tget rr01 2 1));
          m = aset m 1 0 (m 0 1);
          m = aset m 2 0 (m 0 2);
          m = aset m 2 1 (m 1 2);
          m = aset m 3 0 (m 0 3);
          m = aset m 3 1 (m 1 3);
          m = aset m 3 2 (m 2 3)
      in m)"

text \<open>The derivative of the matrix with respect to \<open>rr01\<close>, filled when \<open>align \<noteq> displace\<close>.\<close>

definition T9 :: "real \<Rightarrow> real \<Rightarrow> real \<Rightarrow> real \<Rightarrow> real \<Rightarrow> real \<Rightarrow> real \<Rightarrow> real \<Rightarrow> real \<Rightarrow> Tensor" where
  "T9 a b c e f g h i j =
     Tensor (Fin a) (Fin b) (Fin c) (Fin e) (Fin f) (Fin g) (Fin h) (Fin i) (Fin j)"

definition dm_drr01_table :: "nat \<Rightarrow> nat \<Rightarrow> Tensor" where
  "dm_drr01_table =
     (let dm = (\<lambda>i j. 0);
          dm = aset dm 0 0 (tsmul (Fin 2) (T9 (-1) 0 0  0 (-1) 0  0 0 (-1)));
          dm = aset dm 1 1 (tsmul (Fin 2) (T9 (-1) 0 0  0 1 0  0 0 1));
          dm = aset dm 2 2 (tsmul (Fin 2) (T9 1 0 0  0 (-1) 0  0 0 1));
          dm = aset dm 3 3 (tsmul (Fin 2) (T9 1 0 0  0 1 0  0 0 (-1)));
          dm = aset dm 0 1 (tsmul (Fin 2) (T9 0 0 0  0 0 (-1)  0 1 0));
          dm = aset dm 0 2 (tsmul (Fin 2) (T9 0 0 1  0 0 0  (-1) 0 0));
          dm = aset dm 0 3 (tsmul (Fin 2) (T9 0 (-1) 0  1 0 0  0 0 0));
          dm = aset dm 1 2 (tsmul (Fin 2) (T9 0 (-1) 0  (-1) 0 0  0 0 0));
          dm = aset dm 1 3 (tsmul (Fin 2) (T9 0 0 (-1)  0 0 0  (-1) 0 0));
          dm = aset dm 2 3 (tsmul (Fin 2) (T9 0 0 0  0 0 (-1)  0 (-1) 0));
          dm = aset dm 1 0 (dm 0 1);
          dm = aset dm 2 0 (dm 0 2);
          dm = aset dm 2 1 (dm 1 2);
          dm = aset dm 3 0 (dm 0 3);
          dm = aset dm 3 1 (dm 1 3);
          dm = aset dm 3 2 (dm 2 3)
      in dm)"

text \<open>Perturbation theory for the matrix: \<^verbatim>\<open>dq_dm[i][j][k]\<close>.\<close>

definition dq_dm :: "(nat \<Rightarrow> dbl) \<Rightarrow> (nat \<Rightarrow> nat \<Rightarrow> dbl) \<Rightarrow> nat \<Rightarrow> nat \<Rightarrow> nat \<Rightarrow> dbl" where
  "dq_dm eigenvals eigenvecs i j k =
     fold (\<lambda>l tmp. tmp + eigenvecs l j * eigenvecs l i / (eigenvals 0 - eigenvals l) * eigenvecs 0 k)
       [1..<4] (Fin 0)"

text \<open>Its propagation to \<open>rr01\<close>: \<^verbatim>\<open>dq_drr01[i]\<close>.\<close>

definition dq_drr01 ::
  "(nat \<Rightarrow> dbl) \<Rightarrow> (nat \<Rightarrow> nat \<Rightarrow> dbl) \<Rightarrow> (nat \<Rightarrow> nat \<Rightarrow> Tensor) \<Rightarrow> nat \<Rightarrow> Tensor" where
  "dq_drr01 eigenvals eigenvecs dm_drr01 i =
     fold (\<lambda>j tmp. fold (\<lambda>k tmp. tmp + tsmul (dq_dm eigenvals eigenvecs i j k) (dm_drr01 j k))
                      [0..<4] tmp)
       [0..<4] 0"

text \<open>The rotation matrix of the quaternion \<open>q\<close>.\<close>

definition rotation_of :: "(nat \<Rightarrow> dbl) \<Rightarrow> Tensor" where
  "rotation_of q =
     Tensor
       (q 0 * q 0 + q 1 * q 1 - q 2 * q 2 - q 3 * q 3)
       (Fin 2 * (q 0 * q 3 + q 1 * q 2))
       (Fin 2 * (- q 0 * q 2 + q 1 * q 3))
       (Fin 2 * (- q 0 * q 3 + q 1 * q 2))
       (q 0 * q 0 - q 1 * q 1 + q 2 * q 2 - q 3 * q 3)
       (Fin 2 * (q 0 * q 1 + q 2 * q 3))
       (Fin 2 * (q 0 * q 2 + q 1 * q 3))
       (Fin 2 * (- q 0 * q 1 + q 2 * q 3))
       (q 0 * q 0 - q 1 * q 1 - q 2 * q 2 + q 3 * q 3)"

text \<open>The derivative of the rotation matrix with respect to \<open>rr01\<close>, entry by entry.\<close>

definition drotation_drr01_of ::
  "(nat \<Rightarrow> dbl) \<Rightarrow> (nat \<Rightarrow> Tensor) \<Rightarrow> (nat \<Rightarrow> nat \<Rightarrow> Tensor) \<Rightarrow> (nat \<Rightarrow> nat \<Rightarrow> Tensor)" where
  "drotation_drr01_of q dq old =
     (let dr = old;
          dr = aset dr 0 0 (tsmul (Fin 2 * q 0) (dq 0) + tsmul (Fin 2 * q 1) (dq 1)
                             - tsmul (Fin 2 * q 2) (dq 2) - tsmul (Fin 2 * q 3) (dq 3));
          dr = aset dr 1 1 (tsmul (Fin 2 * q 0) (dq 0) - tsmul (Fin 2 * q 1) (dq 1)
                             + tsmul (Fin 2 * q 2) (dq 2) - tsmul (Fin 2 * q 3) (dq 3));
          dr = aset dr 2 2 (tsmul (Fin 2 * q 0) (dq 0) - tsmul (Fin 2 * q 1) (dq 1)
                             - tsmul (Fin 2 * q 2) (dq 2) + tsmul (Fin 2 * q 3) (dq 3));
          dr = aset dr 0 1 (tsmul (Fin 2) ((tsmul (q 0) (dq 3) + tmul (dq 0) (q 3))
                                           + (tsmul (q 1) (dq 2) + tmul (dq 1) (q 2))));
          dr = aset dr 0 2 (tsmul (Fin 2) (- (tsmul (q 0) (dq 2) + tmul (dq 0) (q 2))
                                           + (tsmul (q 1) (dq 3) + tmul (dq 1) (q 3))));
          dr = aset dr 1 2 (tsmul (Fin 2) ((tsmul (q 0) (dq 1) + tmul (dq 0) (q 1))
                                           + (tsmul (q 2) (dq 3) + tmul (dq 2) (q 3))));
          dr = aset dr 1 0 (tsmul (Fin 2) (- (tsmul (q 0) (dq 3) + tmul (dq 0) (q 3))
                                           + (tsmul (q 1) (dq 2) + tmul (dq 1) (q 2))));
          dr = aset dr 2 0 (tsmul (Fin 2) ((tsmul (q 0) (dq 2) + tmul (dq 0) (q 2))
                                           + (tsmul (q 1) (dq 3) + tmul (dq 1) (q 3))));
          dr = aset dr 2 1 (tsmul (Fin 2) (- (tsmul (q 0) (dq 1) + tmul (dq 0) (q 1))
                                           + (tsmul (q 2) (dq 3) + tmul (dq 2) (q 3))))
      in dr)"

text \<open>
  The loop over the atoms: the component differences \<^verbatim>\<open>d[iat]\<close> and, when
  \<open>align \<noteq> displace\<close>, the derivative of the distance with respect to the rotation.
\<close>

definition residuals ::
  "bool \<Rightarrow> dbl list \<Rightarrow> Vector list \<Rightarrow> Vector list \<Rightarrow> Vector \<Rightarrow> Vector \<Rightarrow> Vector \<Rightarrow> Tensor
    \<Rightarrow> nat \<Rightarrow> Vector list \<times> Tensor \<Rightarrow> Vector list \<times> Tensor" where
  "residuals alEqDis displace positions reference cp cr creference rotation n =
     fold (\<lambda>iat (d, ddist_drotation).
        let di = positions ! iat - cp - matmul rotation (reference ! iat - creference)
        in (d[iat := di],
            if \<not> alEqDis
            then ddist_drotation
                   + tsmul (Fin (-2) * displace ! iat) (extProduct di (reference ! iat - cr))
            else ddist_drotation))
       [0..<n]"

text \<open>\<^verbatim>\<open>d.resize(n)\<close>: cut, or filled with zero vectors.\<close>

definition resize :: "nat \<Rightarrow> Vector list \<Rightarrow> Vector list" where
  "resize n xs = take n xs @ replicate (n - length xs) 0"

definition contract_rotation :: "Tensor \<Rightarrow> (nat \<Rightarrow> nat \<Rightarrow> Tensor) \<Rightarrow> Tensor" where
  "contract_rotation ddist_drotation drotation_drr01 =
     fold (\<lambda>i acc. fold (\<lambda>j acc. acc + tsmul (tget ddist_drotation i j) (drotation_drr01 i j))
                      [0..<3] acc)
       [0..<3] 0"

text \<open>
  Modelled from the spec: \<^verbatim>\<open>Tools::convert(int, std::string&)\<close> is declared in
  \<^verbatim>\<open>Tools.h\<close>, which is not among the sources; the spec calls its result "the
  underlying error code" in the message. It is the decimal rendering of the integer.
\<close>

fun digits :: "nat \<Rightarrow> string" where
  "digits n = (if n < 10 then [''0123456789'' ! n]
               else digits (n div 10) @ [''0123456789'' ! (n mod 10)])"

declare digits.simps [simp del]

definition convert :: "int \<Rightarrow> string" where
  "convert i = (if i < 0 then CHR ''-'' # digits (nat (- i)) else digits (nat i))"

section \<open>The core-data object\<close>

text \<open>
  The members of \<^verbatim>\<open>class RMSDCoreData\<close> that the source file reads and writes. The
  eigensolver sizes \<^verbatim>\<open>eigenvals\<close> and \<^verbatim>\<open>eigenvecs\<close> to the matrix it is given (four, and
  four by four), so they are functions of the indices \<open>0..3\<close>; \<^verbatim>\<open>drotation_drr01\<close> is a
  C array of three by three tensors.
\<close>

record RMSDCoreData =
  alEqDis :: bool
  distanceIsMSD :: bool
  hasDistance :: bool
  isInitialized :: bool
  safe :: bool
  creference :: Vector
  creference_is_calculated :: bool
  creference_is_removed :: bool
  cpositions :: Vector
  cpositions_is_calculated :: bool
  cpositions_is_removed :: bool
  positions :: "Vector list"
  reference :: "Vector list"
  align :: "dbl list"
  displace :: "dbl list"
  dist :: dbl
  eigenvals :: "nat \<Rightarrow> dbl"
  eigenvecs :: "nat \<Rightarrow> nat \<Rightarrow> dbl"
  rr00 :: dbl
  rr11 :: dbl
  rotation :: Tensor
  drotation_drr01 :: "nat \<Rightarrow> nat \<Rightarrow> Tensor"
  ddist_drr01 :: Tensor
  ddist_drotation :: Tensor
  d :: "Vector list"

text \<open>
  Modelled from the spec: the constructor and the inline setters of \<^verbatim>\<open>RMSDCoreData\<close>
  are in the header \<^verbatim>\<open>RMSD.h\<close>, which is not among the sources. The spec's data model:
  the object is "constructed from one positions/reference pair and their weights", it
  carries the state flags "initialized" and "distance-computed", which only
  \<^verbatim>\<open>doCoreCalc\<close> and \<^verbatim>\<open>getDistance\<close> raise, and each centre has "two independent
  booleans: computed and removed". A new object has every flag down, zero centres and
  tensors, and no residuals; a setter of a centre stores it and raises its "computed"
  flag; a setter of a "removed" flag stores the flag.
\<close>

definition RMSDCoreData_new ::
  "dbl list \<Rightarrow> dbl list \<Rightarrow> Vector list \<Rightarrow> Vector list \<Rightarrow> RMSDCoreData" where
  "RMSDCoreData_new a dw p r =
     \<lparr> alEqDis = False, distanceIsMSD = False, hasDistance = False, isInitialized = False,
       safe = False,
       creference = 0, creference_is_calculated = False, creference_is_removed = False,
       cpositions = 0, cpositions_is_calculated = False, cpositions_is_removed = False,
       positions = p, reference = r, align = a, displace = dw,
       dist = Fin 0, eigenvals = (\<lambda>i. Fin 0), eigenvecs = (\<lambda>i j. Fin 0),
       rr00 = Fin 0, rr11 = Fin 0,
       rotation = 0, drotation_drr01 = (\<lambda>i j. 0), ddist_drr01 = 0, ddist_drotation = 0,
       d = [] \<rparr>"

definition setPositionsCenter :: "Vector \<Rightarrow> RMSDCoreData \<Rightarrow> RMSDCoreData" where
  "setPositionsCenter v cd = cd\<lparr>cpositions := v, cpositions_is_calculated := True\<rparr>"

definition setReferenceCenter :: "Vector \<Rightarrow> RMSDCoreData \<Rightarrow> RMSDCoreData" where
  "setReferenceCenter v cd = cd\<lparr>creference := v, creference_is_calculated := True\<rparr>"

definition setPositionsCenterIsRemoved :: "bool \<Rightarrow> RMSDCoreData \<Rightarrow> RMSDCoreData" where
  "setPositionsCenterIsRemoved t cd = cd\<lparr>cpositions_is_removed := t\<rparr>"

definition setReferenceCenterIsRemoved :: "bool \<Rightarrow> RMSDCoreData \<Rightarrow> RMSDCoreData" where
  "setReferenceCenterIsRemoved t cd = cd\<lparr>creference_is_removed := t\<rparr>"

text \<open>
  The eigensolver \<^verbatim>\<open>diagMat\<close> is external. It is a parameter: from the matrix and the
  state of the world outside (\<open>'s\<close>: whatever the solver reads and changes) it gives its
  error code, the eigenvalues and the eigenvectors, and the new state of the world. The
  state the engine hands back tells how often it has called the solver.
\<close>

type_synonym 's eigensolver =
  "matrix4 \<Rightarrow> 's \<Rightarrow> (int \<times> (nat \<Rightarrow> dbl) \<times> (nat \<Rightarrow> nat \<Rightarrow> dbl)) \<times> 's"

definition doCoreCalc ::
  "'s eigensolver \<Rightarrow> bool \<Rightarrow> bool \<Rightarrow> RMSDCoreData \<Rightarrow> 's \<Rightarrow> (error + RMSDCoreData) \<times> 's" where
  "doCoreCalc diagMat safe' alEqDis' cd s =
     (let n = length (reference cd) in
      if \<not> creference_is_calculated cd
      then (Inl (Fatal ''the center of the reference frame must be already provided at this stage''), s)
      else if \<not> cpositions_is_calculated cd
      then (Inl (Fatal ''the center of the positions frame must be already provided at this stage''), s)
      else if \<not> (n \<le> length (align cd) \<and> n \<le> length (positions cd)
                  \<and> (alEqDis' \<or> n \<le> length (displace cd)))
      then (Inl OutOfRange, s)
      else
        let cp = (if \<not> cpositions_is_removed cd then cpositions cd else 0);
            cr = (if \<not> creference_is_removed cd then creference cd else 0);
            (rr00', rr11', rr01) = moments (align cd) (positions cd) (reference cd) cp cr n;
            m = key_matrix rr01;
            dm_drr01 = (if \<not> alEqDis' then dm_drr01_table else (\<lambda>i j. 0));
            ((diagerror, eigenvals', eigenvecs'), s') = diagMat m s
        in if diagerror \<noteq> 0
           then (Inl (Fatal (''DIAGONALIZATION FAILED WITH ERROR CODE '' @ convert diagerror)), s')
           else
             let q = (\<lambda>i. eigenvecs' 0 i);
                 dq = (if \<not> alEqDis' then dq_drr01 eigenvals' eigenvecs' dm_drr01 else (\<lambda>i. 0));
                 rotation' = rotation_of q;
                 drotation' = (if \<not> alEqDis' then drotation_drr01_of q dq (drotation_drr01 cd)
                               else drotation_drr01 cd);
                 (d', ddist_drotation') =
                    residuals alEqDis' (displace cd) (positions cd) (reference cd) cp cr
                      (creference cd) rotation' n
                      (resize n (d cd), if \<not> alEqDis' then 0 else ddist_drotation cd);
                 ddist_drr01' = (if \<not> alEqDis' then contract_rotation ddist_drotation' drotation'
                                 else ddist_drr01 cd)
             in (Inr (cd\<lparr> rr00 := rr00', rr11 := rr11',
                           eigenvals := eigenvals', eigenvecs := eigenvecs',
                           rotation := rotation', drotation_drr01 := drotation',
                           d := d', ddist_drotation := ddist_drotation',
                           ddist_drr01 := ddist_drr01',
                           alEqDis := alEqDis', safe := safe', isInitialized := True \<rparr>), s'))"

text \<open>The loop of \<^verbatim>\<open>getDistance\<close>.\<close>

definition resum :: "bool \<Rightarrow> bool \<Rightarrow> dbl list \<Rightarrow> dbl list \<Rightarrow> Vector list \<Rightarrow> nat \<Rightarrow> dbl \<Rightarrow> dbl" where
  "resum al_eq_dis is_safe al di ds n =
     fold (\<lambda>iat acc.
        if al_eq_dis
        then (if is_safe then acc + al ! iat * modulo2 (ds ! iat) else acc)
        else acc + di ! iat * modulo2 (ds ! iat))
       [0..<n]"

definition getDistance :: "bool \<Rightarrow> RMSDCoreData \<Rightarrow> error + (dbl \<times> RMSDCoreData)" where
  "getDistance squared cd =
     (if \<not> isInitialized cd
      then Inl (Fatal ''OptimalRMSD.cpp cannot calculate the distance without being initialized first by doCoreCalc '')
      else
        let n = length (reference cd) in
        if (alEqDis cd \<and> safe cd \<and> \<not> (n \<le> length (align cd) \<and> n \<le> length (d cd)))
           \<or> (\<not> alEqDis cd \<and> \<not> (n \<le> length (displace cd) \<and> n \<le> length (d cd)))
        then Inl OutOfRange
        else
          let dist0 = eigenvals cd 0 + rr00 cd + rr11 cd;
              dist1 = (if safe cd \<or> \<not> alEqDis cd then Fin 0 else dist0);
              dist2 = resum (alEqDis cd) (safe cd) (align cd) (displace cd) (d cd) n dist1
          in if \<not> squared
             then Inr (dsqrt dist2,
                       cd\<lparr>dist := dsqrt dist2, distanceIsMSD := False, hasDistance := True\<rparr>)
             else Inr (dist2, cd\<lparr>dist := dist2, distanceIsMSD := True, hasDistance := True\<rparr>))"

section \<open>The derivative accessors\<close>

definition getDDistanceDPositions :: "RMSDCoreData \<Rightarrow> error + Vector list" where
  "getDDistanceDPositions cd =
     (let n = length (reference cd);
          prefactor = (if \<not> distanceIsMSD cd \<and> alEqDis cd
                       then Fin 2 * (Fin (1/2) / dist cd) else Fin 2)
      in
      if \<not> hasDistance cd
      then Inl (Fatal ''getDPositionsDerivatives needs to calculate the distance via getDistance first !'')
      else if \<not> isInitialized cd
      then Inl (Fatal ''getDPositionsDerivatives needs to initialize the coreData first!'')
      else if \<not> (n \<le> length (align cd) \<and> n \<le> length (d cd)
                  \<and> (alEqDis cd \<or> n \<le> length (displace cd)))
      then Inl OutOfRange
      else
        let (derivatives, ddist_dcpositions, csum) =
              fold (\<lambda>iat (derivatives, ddist_dcpositions, csum).
                 if alEqDis cd
                 then (derivatives[iat := smul (prefactor * align cd ! iat) (d cd ! iat)],
                       ddist_dcpositions, csum)
                 else
                   let tmp1 = smul (Fin 2 * displace cd ! iat) (d cd ! iat);
                       tmp2 = vmul (matmul (ddist_drr01 cd) (reference cd ! iat - creference cd))
                                (align cd ! iat)
                   in (derivatives[iat := tmp1 + tmp2], ddist_dcpositions + (- tmp1), csum + tmp2))
                [0..<n] (replicate n 0, 0, 0);
            derivatives =
              (if \<not> alEqDis cd
               then fold (\<lambda>iat ders.
                      ders[iat := ders ! iat + vmul (ddist_dcpositions - csum) (align cd ! iat)])
                      [0..<n] derivatives
               else derivatives);
            derivatives =
              (if \<not> distanceIsMSD cd \<and> \<not> alEqDis cd
               then scale_derivatives (Fin (1/2) / dist cd) n derivatives
               else derivatives)
        in Inr derivatives)"

definition getDDistanceDReference :: "RMSDCoreData \<Rightarrow> error + Vector list" where
  "getDDistanceDReference cd =
     (let n = length (reference cd);
          prefactor = (if \<not> distanceIsMSD cd \<and> alEqDis cd
                       then Fin 2 * (Fin (1/2) / dsqrt (dist cd)) else Fin 2)
      in
      if \<not> hasDistance cd
      then Inl (Fatal ''getDDistanceDReference needs to calculate the distance via getDistance first !'')
      else if \<not> isInitialized cd
      then Inl (Fatal ''getDDistanceDReference to initialize the coreData first!'')
      else if \<not> (n \<le> length (align cd) \<and> n \<le> length (d cd)
                  \<and> (alEqDis cd \<or> (n \<le> length (displace cd) \<and> n \<le> length (positions cd))))
      then Inl OutOfRange
      else
        let t_rotation = transpose (rotation cd);
            t_ddist_drr01 = transpose (ddist_drr01 cd);
            (derivatives, ddist_dcreference, csum) =
              fold (\<lambda>iat (derivatives, ddist_dcreference, csum).
                 if alEqDis cd
                 then (derivatives[iat := smul (- prefactor * align cd ! iat)
                                            (matmul t_rotation (d cd ! iat))],
                       ddist_dcreference, csum)
                 else
                   let tmp1 = smul (Fin 2 * displace cd ! iat) (matmul t_rotation (d cd ! iat));
                       tmp2 = vmul (matmul t_ddist_drr01 (positions cd ! iat - cpositions cd))
                                (align cd ! iat)
                   in (derivatives[iat := - tmp1 + tmp2], ddist_dcreference + tmp1, csum + tmp2))
                [0..<n] (replicate n 0, 0, 0);
            derivatives =
              (if \<not> alEqDis cd
               then fold (\<lambda>iat ders.
                      ders[iat := ders ! iat + vmul (ddist_dcreference - csum) (align cd ! iat)])
                      [0..<n] derivatives
               else derivatives);
            derivatives =
              (if \<not> distanceIsMSD cd \<and> \<not> alEqDis cd
               then scale_derivatives (Fin (1/2) / dist cd) n derivatives
               else derivatives)
        in Inr derivatives)"

text \<open>
  The derivatives of the rotation matrix: a three by three \<^verbatim>\<open>Matrix\<close> of vectors of
  \<^verbatim>\<open>Vector\<close>, each empty until the loop fills it.
\<close>

definition fill_rotation_derivative ::
  "bool \<Rightarrow> (nat \<Rightarrow> nat \<Rightarrow> Tensor) \<Rightarrow> Vector list \<Rightarrow> nat \<Rightarrow> (nat \<Rightarrow> nat \<Rightarrow> Vector list)" where
  "fill_rotation_derivative inverseTransform tensors v n =
     fold (\<lambda>a DRot. fold (\<lambda>b DRot.
              if inverseTransform
              then aset DRot b a (map (\<lambda>iat. matmul (tensors a b) (v ! iat)) [0..<n])
              else aset DRot a b (map (\<lambda>iat. matmul (tensors a b) (v ! iat)) [0..<n]))
            [0..<3] DRot)
       [0..<3] (\<lambda>i j. [])"

definition getDRotationDPosition ::
  "bool \<Rightarrow> RMSDCoreData \<Rightarrow> error + (nat \<Rightarrow> nat \<Rightarrow> Vector list)" where
  "getDRotationDPosition inverseTransform cd =
     (let n = length (reference cd) in
      if \<not> isInitialized cd
      then Inl (Fatal ''getDRotationDPosition to initialize the coreData first!'')
      else if \<not> n \<le> length (align cd) then Inl OutOfRange
      else
        let csum = fold (\<lambda>iat c. c + vmul (reference cd ! iat - creference cd) (align cd ! iat))
                     [0..<n] 0;
            v = map (\<lambda>iat. vmul (reference cd ! iat - creference cd - csum) (align cd ! iat))
                  [0..<n]
        in Inr (fill_rotation_derivative inverseTransform (drotation_drr01 cd) v n))"

definition getDRotationDReference ::
  "bool \<Rightarrow> RMSDCoreData \<Rightarrow> error + (nat \<Rightarrow> nat \<Rightarrow> Vector list)" where
  "getDRotationDReference inverseTransform cd =
     (let n = length (reference cd) in
      if \<not> isInitialized cd
      then Inl (Fatal ''getDRotationDPosition to initialize the coreData first!'')
      else if \<not> (n \<le> length (align cd) \<and> n \<le> length (positions cd)) then Inl OutOfRange
      else
        let csum = fold (\<lambda>iat c. c + vmul (positions cd ! iat - cpositions cd) (align cd ! iat))
                     [0..<n] 0;
            v = map (\<lambda>iat. vmul (positions cd ! iat - cpositions cd - csum) (align cd ! iat))
                  [0..<n]
        in Inr (fill_rotation_derivative inverseTransform
                  (\<lambda>a b. transpose (drotation_drr01 cd a b)) v n))"

section \<open>The read-backs\<close>

definition getAlignedReferenceToPositions :: "RMSDCoreData \<Rightarrow> error + Vector list" where
  "getAlignedReferenceToPositions cd =
     (let n = length (reference cd) in
      if \<not> isInitialized cd
      then Inl (Fatal ''getAlignedReferenceToPostions needs to initialize the coreData first!'')
      else if \<not> (n \<le> length (d cd) \<and> n \<le> length (positions cd)) then Inl OutOfRange
      else Inr (map (\<lambda>iat. - (d cd ! iat) + positions cd ! iat - cpositions cd) [0..<n]))"

definition getAlignedPositionsToReference :: "RMSDCoreData \<Rightarrow> error + Vector list" where
  "getAlignedPositionsToReference cd =
     (let n = length (positions cd) in
      if \<not> isInitialized cd
      then Inl (Fatal ''getAlignedPostionsToReference needs to initialize the coreData first!'')
      else Inr (map (\<lambda>iat. matmul (transpose (rotation cd)) (positions cd ! iat - cpositions cd))
                  [0..<n]))"

definition getCenteredPositions :: "RMSDCoreData \<Rightarrow> error + Vector list" where
  "getCenteredPositions cd =
     (let n = length (reference cd) in
      if \<not> isInitialized cd
      then Inl (Fatal ''getCenteredPositions needs to initialize the coreData first!'')
      else if \<not> n \<le> length (positions cd) then Inl OutOfRange
      else Inr (map (\<lambda>iat. positions cd ! iat - cpositions cd) [0..<n]))"

definition getCenteredReference :: "RMSDCoreData \<Rightarrow> error + Vector list" where
  "getCenteredReference cd =
     (let n = length (reference cd) in
      if \<not> isInitialized cd
      then Inl (Fatal ''getCenteredReference needs to initialize the coreData first!'')
      else Inr (map (\<lambda>iat. reference cd ! iat - creference cd) [0..<n]))"

definition getRotationMatrixReferenceToPositions :: "RMSDCoreData \<Rightarrow> error + Tensor" where
  "getRotationMatrixReferenceToPositions cd =
     (if \<not> isInitialized cd
      then Inl (Fatal ''getRotationMatrixReferenceToPositions needs to initialize the coreData first!'')
      else Inr (rotation cd))"

definition getRotationMatrixPositionsToReference :: "RMSDCoreData \<Rightarrow> error + Tensor" where
  "getRotationMatrixPositionsToReference cd =
     (if \<not> isInitialized cd
      then Inl (Fatal ''getRotationMatrixReferenceToPositions needs to initialize the coreData first!'')
      else Inr (transpose (rotation cd)))"

section \<open>The optimal methods of the facade\<close>

text \<open>
  \<^verbatim>\<open>optimalAlignment<safe,alEqDis>\<close>, the variant that is compiled unless \<^verbatim>\<open>OLDRMSD\<close> is
  defined: it builds the core-data object, hands over the settings of the centres, runs
  \<^verbatim>\<open>doCoreCalc\<close> and returns \<^verbatim>\<open>0.\<close>; it does not touch \<^verbatim>\<open>derivatives\<close>.
\<close>

definition optimalAlignment ::
  "'s eigensolver \<Rightarrow> bool \<Rightarrow> bool \<Rightarrow> RMSD \<Rightarrow> dbl list \<Rightarrow> dbl list \<Rightarrow> Vector list \<Rightarrow> Vector list
    \<Rightarrow> Vector list \<Rightarrow> bool \<Rightarrow> 's \<Rightarrow> (error + (dbl \<times> Vector list)) \<times> 's" where
  "optimalAlignment diagMat safe' alEqDis' obj al di pos ref derivatives squared s =
     (if \<not> reference_center_is_calculated obj
      then (Inl (Fatal '' at this point the reference center must be calculated''), s)
      else if \<not> reference_center_is_removed obj
      then (Inl (Fatal '' at this point the reference center must be removed''), s)
      else
        let cd = RMSDCoreData_new al di pos ref;
            cd = setPositionsCenterIsRemoved (positions_center_is_removed obj) cd;
            cd = setPositionsCenter (positions_center obj) cd;
            cd = setReferenceCenterIsRemoved (reference_center_is_removed obj) cd;
            cd = setPositionsCenter (positions_center obj) cd
        in (case doCoreCalc diagMat safe' alEqDis' cd s of
              (Inl e, s') \<Rightarrow> (Inl e, s')
            | (Inr cd', s') \<Rightarrow> (Inr (Fin 0, derivatives), s')))"

definition calculate ::
  "'s eigensolver \<Rightarrow> RMSD \<Rightarrow> Vector list \<Rightarrow> Vector list \<Rightarrow> bool \<Rightarrow> 's
    \<Rightarrow> (error + (dbl \<times> Vector list)) \<times> 's" where
  "calculate diagMat obj pos derivatives squared s =
     (case alignmentMethod obj of
        SIMPLE \<Rightarrow>
          (simpleAlignment (this_align obj) (this_displace obj) pos (this_reference obj)
             derivatives squared, s)
      | OPTIMAL_FAST \<Rightarrow>
          if vector_eq (this_align obj) (this_displace obj)
          then optimalAlignment diagMat False True obj (this_align obj) (this_displace obj) pos
                 (this_reference obj) derivatives squared s
          else optimalAlignment diagMat False False obj (this_align obj) (this_displace obj) pos
                 (this_reference obj) derivatives squared s
      | OPTIMAL \<Rightarrow>
          if vector_eq (this_align obj) (this_displace obj)
          then optimalAlignment diagMat True True obj (this_align obj) (this_displace obj) pos
                 (this_reference obj) derivatives squared s
          else optimalAlignment diagMat True False obj (this_align obj) (this_displace obj) pos
                 (this_reference obj) derivatives squared s)"

section \<open>What \<^verbatim>\<open>doCoreCalc\<close> needs, and what it hands to the eigensolver\<close>

text \<open>
  \<^verbatim>\<open>doCoreCalc\<close> reaches the eigensolver when its two assertions hold and its loops stay
  within the vectors; the matrix it then passes is the key matrix of the moment \<open>rr01\<close>.
\<close>

definition core_ready :: "bool \<Rightarrow> RMSDCoreData \<Rightarrow> bool" where
  "core_ready alEqDis' cd \<longleftrightarrow>
     creference_is_calculated cd \<and> cpositions_is_calculated cd
     \<and> length (reference cd) \<le> length (align cd)
     \<and> length (reference cd) \<le> length (positions cd)
     \<and> (alEqDis' \<or> length (reference cd) \<le> length (displace cd))"

definition solver_input :: "RMSDCoreData \<Rightarrow> matrix4" where
  "solver_input cd =
     (let n = length (reference cd);
          cp = (if \<not> cpositions_is_removed cd then cpositions cd else 0);
          cr = (if \<not> creference_is_removed cd then creference cd else 0)
      in key_matrix (snd (snd (moments (align cd) (positions cd) (reference cd) cp cr n))))"

section \<open>The distance as the spec words it\<close>

text \<open>The weighted sum of the squared residuals of the first \<open>n\<close> atoms.\<close>

definition weighted_square_sum :: "nat \<Rightarrow> dbl list \<Rightarrow> Vector list \<Rightarrow> dbl" where
  "weighted_square_sum n ws vs = (\<Sum>i\<leftarrow>[0..<n]. ws ! i * modulo2 (vs ! i))"

text \<open>
  The method without rotation, as the spec words it, over the first \<open>n\<close> atoms: the
  weighted centre of a point set; the residual \<open>d\<^sub>i\<close> of an atom after the two centres under
  the alignment weights are matched; the shift between the centres under the two kinds
  of weights; the distance, the residuals' squares summed under the displacement
  weights; and the derivative of an atom.
\<close>

definition weighted_center :: "nat \<Rightarrow> dbl list \<Rightarrow> Vector list \<Rightarrow> Vector" where
  "weighted_center n ws ps = (\<Sum>i\<leftarrow>[0..<n]. vmul (ps ! i) (ws ! i))"

definition simple_residual :: "dbl list \<Rightarrow> Vector list \<Rightarrow> Vector list \<Rightarrow> nat \<Rightarrow> nat \<Rightarrow> Vector" where
  "simple_residual al pos ref n i =
     (pos ! i - weighted_center n al pos) - (ref ! i - weighted_center n al ref)"

definition simple_shift :: "dbl list \<Rightarrow> dbl list \<Rightarrow> Vector list \<Rightarrow> Vector list \<Rightarrow> nat \<Rightarrow> Vector" where
  "simple_shift al di pos ref n =
     (weighted_center n al pos - weighted_center n al ref)
       - (weighted_center n di pos - weighted_center n di ref)"

definition simple_msd :: "dbl list \<Rightarrow> dbl list \<Rightarrow> Vector list \<Rightarrow> Vector list \<Rightarrow> nat \<Rightarrow> dbl" where
  "simple_msd al di pos ref n = (\<Sum>i\<leftarrow>[0..<n]. di ! i * modulo2 (simple_residual al pos ref n i))"

definition simple_gradient ::
  "dbl list \<Rightarrow> dbl list \<Rightarrow> Vector list \<Rightarrow> Vector list \<Rightarrow> nat \<Rightarrow> nat \<Rightarrow> Vector" where
  "simple_gradient al di pos ref n i =
     smul (Fin 2) (smul (di ! i) (simple_residual al pos ref n i)
                   + smul (al ! i) (simple_shift al di pos ref n))"

section \<open>Finite numbers\<close>

text \<open>A vector of three finite numbers.\<close>

fun fin_vec :: "Vector \<Rightarrow> bool" where
  "fin_vec (Vector a b c) \<longleftrightarrow> is_Fin a \<and> is_Fin b \<and> is_Fin c"

section \<open>Concrete inputs\<close>

text \<open>
  Two atoms on the x axis, at \<open>\<plusminus>5\<close> in the moving set and at \<open>\<plusminus>1\<close> in the reference,
  with weights one half each; both centres are the origin.
\<close>

definition pos2 :: "Vector list" where
  "pos2 = [Vector (Fin (-5)) (Fin 0) (Fin 0), Vector (Fin 5) (Fin 0) (Fin 0)]"

definition ref2 :: "Vector list" where
  "ref2 = [Vector (Fin (-1)) (Fin 0) (Fin 0), Vector (Fin 1) (Fin 0) (Fin 0)]"

definition halves :: "dbl list" where
  "halves = [Fin (1/2), Fin (1/2)]"

text \<open>The core-data object of these, with both centres handed over.\<close>

definition cd2 :: RMSDCoreData where
  "cd2 = setReferenceCenter 0 (setPositionsCenter 0 (RMSDCoreData_new halves halves pos2 ref2))"

text \<open>
  An eigensolver that fails with code \<open>-7\<close> and counts its invocations, and one that
  succeeds with the eigenpairs of the diagonal matrix \<open>diag(-10, -10, 10, 10)\<close>, which is
  the key matrix of \<open>cd2\<close>; it counts its invocations too.
\<close>

definition failing_solver :: "nat eigensolver" where
  "failing_solver m k = ((-7, (\<lambda>i. Fin 0), (\<lambda>i j. Fin 0)), Suc k)"

definition diag_solver :: "nat eigensolver" where
  "diag_solver m k =
     ((0, (\<lambda>i. if i < 2 then Fin (-10) else Fin 10),
          (\<lambda>i j. if i = j then Fin 1 else Fin 0)), Suc k)"

text \<open>The object \<^verbatim>\<open>doCoreCalc\<close> makes of \<open>cd2\<close> with that solver, in safe mode or not.\<close>

definition cd2_core :: "bool \<Rightarrow> RMSDCoreData" where
  "cd2_core sf =
     cd2\<lparr> rr00 := Fin 25, rr11 := Fin 1,
          eigenvals := (\<lambda>i. if i < 2 then Fin (-10) else Fin 10),
          eigenvecs := (\<lambda>i j. if i = j then Fin 1 else Fin 0),
          rotation := Tensor (Fin 1) (Fin 0) (Fin 0) (Fin 0) (Fin 1) (Fin 0) (Fin 0) (Fin 0) (Fin 1),
          d := [Vector (Fin (-4)) (Fin 0) (Fin 0), Vector (Fin 4) (Fin 0) (Fin 0)],
          alEqDis := True, safe := sf, isInitialized := True \<rparr>"

text \<open>
  The object \<open>cd2_core False\<close> after \<^verbatim>\<open>getDistance(false)\<close>: the squared distance is 16
  and the distance stored is 4.
\<close>

definition cd2_rmsd :: RMSDCoreData where
  "cd2_rmsd = (cd2_core False)\<lparr>dist := Fin 4, distanceIsMSD := False, hasDistance := True\<rparr>"

text \<open>An RMSD object of the method without rotation that holds the two atoms above.\<close>

definition simple2 :: RMSD where
  "simple2 =
     \<lparr> alignmentMethod = SIMPLE, this_reference = ref2, this_align = halves,
       this_displace = halves, reference_center = 0,
       reference_center_is_calculated = True, reference_center_is_removed = True,
       positions_center = 0, positions_center_is_calculated = False,
       positions_center_is_removed = False \<rparr>"

text \<open>An RMSD object of the method OPTIMAL that holds the two atoms above.\<close>

definition optimal2 :: RMSD where
  "optimal2 = simple2\<lparr>alignmentMethod := OPTIMAL\<rparr>"

text \<open>
  Three atoms with the weights one half, one quarter and one quarter, which sum to one;
  the weighted centre of the atoms is the origin. The object holds them as its reference.
\<close>

definition pts3 :: "Vector list" where
  "pts3 = [Vector (Fin 1) (Fin 0) (Fin 0), Vector (Fin (-1)) (Fin 1) (Fin 0),
           Vector (Fin (-1)) (Fin (-1)) (Fin 0)]"

definition w3 :: "dbl list" where
  "w3 = [Fin (1/2), Fin (1/4), Fin (1/4)]"

definition simple3 :: RMSD where
  "simple3 =
     \<lparr> alignmentMethod = SIMPLE, this_reference = pts3, this_align = w3,
       this_displace = w3, reference_center = 0,
       reference_center_is_calculated = True, reference_center_is_removed = True,
       positions_center = 0, positions_center_is_calculated = False,
       positions_center_is_removed = False \<rparr>"

text \<open>
  The object that \<^verbatim>\<open>setReference\<close> makes of the three atoms above: uniform weights, and
  the centre under those weights removed from the atoms and stored.
\<close>

definition centered3 :: RMSD where
  "centered3 =
     \<lparr> alignmentMethod = SIMPLE,
       this_reference = [Vector (Fin (4/3)) (Fin 0) (Fin 0), Vector (Fin (-2/3)) (Fin 1) (Fin 0),
                         Vector (Fin (-2/3)) (Fin (-1)) (Fin 0)],
       this_align = [Fin (1/3), Fin (1/3), Fin (1/3)],
       this_displace = [Fin (1/3), Fin (1/3), Fin (1/3)],
       reference_center = Vector (Fin (-1/3)) (Fin 0) (Fin 0),
       reference_center_is_calculated = True, reference_center_is_removed = True,
       positions_center = 0, positions_center_is_calculated = False,
       positions_center_is_removed = False \<rparr>"

text \<open>
  The object that \<^verbatim>\<open>setReference\<close> makes of two atoms at 1 and at 3 on the x axis:
  weights one half each, the centre at 2 stored and removed from the atoms.
\<close>

definition shifted2 :: RMSD where
  "shifted2 =
     \<lparr> alignmentMethod = SIMPLE, this_reference = ref2, this_align = halves,
       this_displace = halves, reference_center = Vector (Fin 2) (Fin 0) (Fin 0),
       reference_center_is_calculated = True, reference_center_is_removed = True,
       positions_center = 0, positions_center_is_calculated = False,
       positions_center_is_removed = False \<rparr>"

section \<open>Histories of a core-data object\<close>

text \<open>
  The calls that change a core-data object, and the object after a sequence of them,
  each of which returned; a call that fails ends the sequence with its error.
\<close>

datatype call =
    SetPositionsCenter Vector
  | SetReferenceCenter Vector
  | SetPositionsCenterIsRemoved bool
  | SetReferenceCenterIsRemoved bool
  | DoCoreCalc bool bool
  | GetDistance bool

fun apply_call ::
  "'s eigensolver \<Rightarrow> call \<Rightarrow> RMSDCoreData \<times> 's \<Rightarrow> error + (RMSDCoreData \<times> 's)" where
  "apply_call diagMat (SetPositionsCenter v) (cd, s) = Inr (setPositionsCenter v cd, s)"
| "apply_call diagMat (SetReferenceCenter v) (cd, s) = Inr (setReferenceCenter v cd, s)"
| "apply_call diagMat (SetPositionsCenterIsRemoved t) (cd, s) =
     Inr (setPositionsCenterIsRemoved t cd, s)"
| "apply_call diagMat (SetReferenceCenterIsRemoved t) (cd, s) =
     Inr (setReferenceCenterIsRemoved t cd, s)"
| "apply_call diagMat (DoCoreCalc safe' alEqDis') (cd, s) =
     (case doCoreCalc diagMat safe' alEqDis' cd s of
        (Inl e, s') \<Rightarrow> Inl e
      | (Inr cd', s') \<Rightarrow> Inr (cd', s'))"
| "apply_call diagMat (GetDistance squared) (cd, s) =
     (case getDistance squared cd of
        Inl e \<Rightarrow> Inl e
      | Inr (v, cd') \<Rightarrow> Inr (cd', s))"

fun run_calls ::
  "'s eigensolver \<Rightarrow> call list \<Rightarrow> RMSDCoreData \<times> 's \<Rightarrow> error + (RMSDCoreData \<times> 's)" where
  "run_calls diagMat [] st = Inr st"
| "run_calls diagMat (c # cs) st =
     (case apply_call diagMat c st of
        Inl e \<Rightarrow> Inl e
      | Inr st' \<Rightarrow> run_calls diagMat cs st')"

fun is_DoCoreCalc :: "call \<Rightarrow> bool" where
  "is_DoCoreCalc (DoCoreCalc x y) = True"
| "is_DoCoreCalc _ = False"

fun is_GetDistance :: "call \<Rightarrow> bool" where
  "is_GetDistance (GetDistance q) = True"
| "is_GetDistance _ = False"

text \<open>A result that is a fatal error.\<close>

fun is_fatal :: "error + 'a \<Rightarrow> bool" where
  "is_fatal (Inl (Fatal msg)) = True"
| "is_fatal _ = False"

section \<open>The eigensolver's part\<close>

lemma key_matrix_sym: "key_matrix rr01 i j = key_matrix rr01 j i"
  by (simp add: key_matrix_def aset_def Let_def)

lemma doCoreCalc_not_ready:
  "\<not> core_ready alEqDis' cd \<Longrightarrow> snd (doCoreCalc diagMat safe' alEqDis' cd s) = s"
  by (auto simp add: doCoreCalc_def core_ready_def Let_def)

lemma doCoreCalc_state:
  "core_ready alEqDis' cd \<Longrightarrow>
   snd (doCoreCalc diagMat safe' alEqDis' cd s) = snd (diagMat (solver_input cd) s)"
  by (auto simp add: doCoreCalc_def core_ready_def solver_input_def Let_def split_beta)

lemma core_ready_cd2: "core_ready b cd2"
  by (simp add: core_ready_def cd2_def setReferenceCenter_def setPositionsCenter_def
      RMSDCoreData_new_def halves_def pos2_def ref2_def)

text \<open>
  C9. The matrix built from \<open>rr01\<close> is symmetric, \<open>m[i][j] = m[j][i]\<close> at every pair of
  indices; and whatever the object and the flags, every matrix that \<^verbatim>\<open>doCoreCalc\<close>
  passes to the eigensolver (here a solver that keeps a log of the matrices it is given)
  is symmetric.
\<close>

theorem key_matrix_symmetric:
  "(\<forall>i j. key_matrix rr01 i j = key_matrix rr01 j i)
   \<and> (\<forall>m \<in> set (snd (doCoreCalc (\<lambda>m lg. (res m, lg @ [m])) safe' alEqDis' cd [])).
         \<forall>i j. m i j = m j i)"
proof (cases "core_ready alEqDis' cd")
  case True
  then show ?thesis
    by (simp add: doCoreCalc_state solver_input_def Let_def key_matrix_sym)
next
  case False
  then show ?thesis
    by (simp add: doCoreCalc_not_ready key_matrix_sym)
qed

theorem key_matrix_symmetric_witness:
  "snd (doCoreCalc (\<lambda>m lg. ((0, (\<lambda>i. Fin 0), (\<lambda>i j. Fin 0)), lg @ [m])) True True cd2 [])
     = [solver_input cd2]
   \<and> (\<forall>i j. solver_input cd2 i j = solver_input cd2 j i)
   \<and> (\<forall>i j. key_matrix (T9 1 2 3 4 5 6 7 8 9) i j = key_matrix (T9 1 2 3 4 5 6 7 8 9) j i)"
proof -
  have st: "snd (doCoreCalc (\<lambda>m lg. ((0, (\<lambda>i. Fin 0), (\<lambda>i j. Fin 0)), lg @ [m])) True True cd2 [])
              = [solver_input cd2]"
    by (simp add: doCoreCalc_state core_ready_cd2)
  show ?thesis
    using key_matrix_symmetric [of "T9 1 2 3 4 5 6 7 8 9"
        "\<lambda>m. (0, (\<lambda>i. Fin 0), (\<lambda>i j. Fin 0))" True True cd2]
    by (simp add: st)
qed

text \<open>
  C8. When the eigensolver returns a code other than zero, \<^verbatim>\<open>doCoreCalc\<close> ends with the
  fatal error whose message is \<open>DIAGONALIZATION FAILED WITH ERROR CODE\<close>, a blank and the
  decimal rendering of the code; the state of the world it leaves is the one the
  solver's single invocation left, so the solver is not invoked a second time.
\<close>

theorem doCoreCalc_diagonalization_failure:
  assumes "core_ready alEqDis' cd"
    and "diagMat (solver_input cd) s = ((code, ev, evec), s')"
    and "code \<noteq> 0"
  shows "doCoreCalc diagMat safe' alEqDis' cd s
           = (Inl (Fatal (''DIAGONALIZATION FAILED WITH ERROR CODE '' @ convert code)), s')"
  using assms
  by (auto simp add: doCoreCalc_def core_ready_def solver_input_def Let_def split_beta)

theorem doCoreCalc_diagonalization_failure_witness:
  "doCoreCalc failing_solver True True cd2 0
     = (Inl (Fatal ''DIAGONALIZATION FAILED WITH ERROR CODE -7''), Suc 0)"
proof -
  have c: "convert (-7) = ''-7''"
    by (simp add: convert_def digits.simps)
  have f: "failing_solver (solver_input cd2) 0 = ((-7, (\<lambda>i. Fin 0), (\<lambda>i j. Fin 0)), Suc 0)"
    by (simp add: failing_solver_def)
  have r: "core_ready True cd2"
    by (rule core_ready_cd2)
  show ?thesis
    using doCoreCalc_diagonalization_failure
      [where diagMat = failing_solver and cd = cd2 and s = 0 and safe' = True, OF r f]
    by (simp add: c)
qed

section \<open>The engine on the concrete input\<close>

lemma upt_0_2: "[0..<2] = [0, 1]"
  by (simp add: upt_rec)

lemma len2: "length ref2 = 2" "length pos2 = 2" "length halves = 2"
  by (simp_all add: ref2_def pos2_def halves_def)

lemma moments_cd2:
  "moments halves pos2 ref2 0 0 2 =
     (Fin 25, Fin 1, Tensor (Fin 5) (Fin 0) (Fin 0) (Fin 0) (Fin 0) (Fin 0) (Fin 0) (Fin 0) (Fin 0))"
  by (simp add: moments_def upt_0_2 halves_def pos2_def ref2_def zero_Vector_def zero_Tensor_def
      minus_dbl_def)

lemma rotation_cd2:
  "rotation_of (\<lambda>j. if j = (0::nat) then Fin 1 else Fin 0)
     = Tensor (Fin 1) (Fin 0) (Fin 0) (Fin 0) (Fin 1) (Fin 0) (Fin 0) (Fin 0) (Fin 1)"
  by (simp add: rotation_of_def minus_dbl_def)

lemma residuals_cd2:
  "residuals True halves pos2 ref2 0 0 0
     (Tensor (Fin 1) (Fin 0) (Fin 0) (Fin 0) (Fin 1) (Fin 0) (Fin 0) (Fin 0) (Fin 1)) 2
     (resize 2 [], t)
   = ([Vector (Fin (-4)) (Fin 0) (Fin 0), Vector (Fin 4) (Fin 0) (Fin 0)], t)"
  by (simp add: residuals_def resize_def upt_0_2 halves_def pos2_def ref2_def zero_Vector_def
      minus_dbl_def numeral_2_eq_2)

lemma doCoreCalc_cd2:
  "doCoreCalc diag_solver sf True cd2 0 = (Inr (cd2_core sf), Suc 0)"
  by (simp add: doCoreCalc_def Let_def diag_solver_def cd2_core_def cd2_def
      setReferenceCenter_def setPositionsCenter_def RMSDCoreData_new_def
      moments_cd2 rotation_cd2 residuals_cd2 len2)

lemma cd2_core_fields:
  "isInitialized (cd2_core sf)" "alEqDis (cd2_core sf)" "safe (cd2_core sf) = sf"
  "reference (cd2_core sf) = ref2" "align (cd2_core sf) = halves"
  "displace (cd2_core sf) = halves" "positions (cd2_core sf) = pos2"
  "d (cd2_core sf) = [Vector (Fin (-4)) (Fin 0) (Fin 0), Vector (Fin 4) (Fin 0) (Fin 0)]"
  "eigenvals (cd2_core sf) 0 = Fin (-10)" "rr00 (cd2_core sf) = Fin 25"
  "rr11 (cd2_core sf) = Fin 1" "\<not> hasDistance (cd2_core sf)"
  by (simp_all add: cd2_core_def cd2_def setReferenceCenter_def setPositionsCenter_def
      RMSDCoreData_new_def)

section \<open>The distance accessor\<close>

lemma fold_add_sum_list:
  fixes a :: "'a :: comm_monoid_add"
  shows "fold (\<lambda>x acc. acc + f x) xs a = a + sum_list (map f xs)"
  by (induction xs arbitrary: a) (simp_all add: add.assoc)

lemma resum_cases:
  "resum b sf al di ds n a =
     (if b then (if sf then a + weighted_square_sum n al ds else a)
      else a + weighted_square_sum n di ds)"
proof -
  have k: "fold (\<lambda>x acc. acc) xs a = a" for xs :: "nat list"
    by (induction xs) simp_all
  show ?thesis
    by (simp add: resum_def weighted_square_sum_def fold_add_sum_list k)
qed

lemma getDistance_value:
  assumes "isInitialized cd"
    and "length (reference cd) \<le> length (d cd)"
    and "length (reference cd) \<le> length (align cd)"
    and "length (reference cd) \<le> length (displace cd)"
  shows "getDistance squared cd =
     (let n = length (reference cd);
          msd = (if alEqDis cd \<and> \<not> safe cd then eigenvals cd 0 + rr00 cd + rr11 cd
                 else if alEqDis cd then weighted_square_sum n (align cd) (d cd)
                 else weighted_square_sum n (displace cd) (d cd));
          v = (if squared then msd else dsqrt msd)
      in Inr (v, cd\<lparr>dist := v, distanceIsMSD := squared, hasDistance := True\<rparr>))"
  using assms
  by (auto simp add: getDistance_def Let_def resum_cases zero_dbl_def [symmetric])

lemma weighted_square_sum_cd2:
  "weighted_square_sum 2 halves [Vector (Fin (-4)) (Fin 0) (Fin 0), Vector (Fin 4) (Fin 0) (Fin 0)]
     = Fin 16"
  by (simp add: weighted_square_sum_def upt_0_2 halves_def modulo2_def)

text \<open>
  C5. On an initialized object whose vectors hold an entry for every atom,
  \<^verbatim>\<open>getDistance\<close> returns the eigenvalue expression \<open>eigenvals[0]+rr00+rr11\<close> when
  \<open>alEqDis\<close> is set and \<open>safe\<close> is not; when \<open>safe\<close> is set it returns the sum of the squared
  residuals weighted by \<open>align\<close>, and when \<open>alEqDis\<close> is not set the sum weighted by
  \<open>displace\<close>; each under the square root when \<open>squared\<close> is false. The value and its kind
  are stored in the object.
\<close>

theorem getDistance_policy:
  assumes "isInitialized cd"
    and "length (reference cd) \<le> length (d cd)"
    and "length (reference cd) \<le> length (align cd)"
    and "length (reference cd) \<le> length (displace cd)"
  shows "getDistance squared cd =
     (let n = length (reference cd);
          msd = (if alEqDis cd \<and> \<not> safe cd then eigenvals cd 0 + rr00 cd + rr11 cd
                 else if alEqDis cd then weighted_square_sum n (align cd) (d cd)
                 else weighted_square_sum n (displace cd) (d cd));
          v = (if squared then msd else dsqrt msd)
      in Inr (v, cd\<lparr>dist := v, distanceIsMSD := squared, hasDistance := True\<rparr>))"
  using assms by (rule getDistance_value)

theorem getDistance_policy_witness:
  "getDistance True (cd2_core False)
     = Inr (Fin 16, (cd2_core False)\<lparr>dist := Fin 16, distanceIsMSD := True, hasDistance := True\<rparr>)
   \<and> getDistance True (cd2_core True)
     = Inr (Fin 16, (cd2_core True)\<lparr>dist := Fin 16, distanceIsMSD := True, hasDistance := True\<rparr>)"
  using getDistance_policy [of "cd2_core False" True] getDistance_policy [of "cd2_core True" True]
  by (simp add: cd2_core_fields len2 weighted_square_sum_cd2 Let_def)

section \<open>The order of the calls\<close>

lemma doCoreCalc_flags:
  "doCoreCalc diagMat safe' alEqDis' cd s = (Inr cd', s')
   \<Longrightarrow> isInitialized cd' \<and> hasDistance cd' = hasDistance cd"
  by (auto simp add: doCoreCalc_def Let_def split_beta split: if_splits)

lemma getDistance_flags:
  "getDistance squared cd = Inr (v, cd')
   \<Longrightarrow> hasDistance cd' \<and> isInitialized cd' \<and> isInitialized cd"
  by (auto simp add: getDistance_def Let_def split: if_splits)

lemma apply_call_flags:
  "apply_call diagMat c (cd, s) = Inr (cd', s')
   \<Longrightarrow> isInitialized cd' = (isInitialized cd \<or> is_DoCoreCalc c)
       \<and> hasDistance cd' = (hasDistance cd \<or> is_GetDistance c)
       \<and> (hasDistance cd' \<and> \<not> hasDistance cd \<longrightarrow> isInitialized cd')"
proof (cases c)
  case (DoCoreCalc x y)
  then show "apply_call diagMat c (cd, s) = Inr (cd', s') \<Longrightarrow> ?thesis"
    by (auto split: prod.splits sum.splits dest: doCoreCalc_flags)
next
  case (GetDistance q)
  then show "apply_call diagMat c (cd, s) = Inr (cd', s') \<Longrightarrow> ?thesis"
    by (auto split: prod.splits sum.splits dest: getDistance_flags)
qed (auto simp add: setPositionsCenter_def setReferenceCenter_def
      setPositionsCenterIsRemoved_def setReferenceCenterIsRemoved_def)

lemma run_calls_flags:
  "run_calls diagMat cs (cd, s) = Inr (cd', s')
   \<Longrightarrow> isInitialized cd' = (isInitialized cd \<or> (\<exists>c \<in> set cs. is_DoCoreCalc c))
       \<and> hasDistance cd' = (hasDistance cd \<or> (\<exists>c \<in> set cs. is_GetDistance c))
       \<and> (hasDistance cd' \<and> \<not> hasDistance cd \<longrightarrow> isInitialized cd')"
proof (induction cs arbitrary: cd s)
  case Nil
  then show ?case by simp
next
  case (Cons c cs)
  from Cons.prems obtain cd1 s1 where
    a: "apply_call diagMat c (cd, s) = Inr (cd1, s1)" and
    r: "run_calls diagMat cs (cd1, s1) = Inr (cd', s')"
    by (auto split: sum.splits)
  from apply_call_flags [OF a] Cons.IH [OF r] show ?case
    by auto
qed

lemma fatal_distance_derivatives:
  "is_fatal (getDDistanceDPositions cd) \<longleftrightarrow> \<not> (hasDistance cd \<and> isInitialized cd)"
  "is_fatal (getDDistanceDReference cd) \<longleftrightarrow> \<not> (hasDistance cd \<and> isInitialized cd)"
  by (auto simp add: getDDistanceDPositions_def getDDistanceDReference_def Let_def split_beta)

lemma fatal_initialized_only:
  "is_fatal (getDRotationDPosition t cd) \<longleftrightarrow> \<not> isInitialized cd"
  "is_fatal (getDRotationDReference t cd) \<longleftrightarrow> \<not> isInitialized cd"
  "is_fatal (getAlignedReferenceToPositions cd) \<longleftrightarrow> \<not> isInitialized cd"
  "is_fatal (getAlignedPositionsToReference cd) \<longleftrightarrow> \<not> isInitialized cd"
  "is_fatal (getCenteredPositions cd) \<longleftrightarrow> \<not> isInitialized cd"
  "is_fatal (getCenteredReference cd) \<longleftrightarrow> \<not> isInitialized cd"
  "is_fatal (getRotationMatrixReferenceToPositions cd) \<longleftrightarrow> \<not> isInitialized cd"
  "is_fatal (getRotationMatrixPositionsToReference cd) \<longleftrightarrow> \<not> isInitialized cd"
  by (auto simp add: getDRotationDPosition_def getDRotationDReference_def
      getAlignedReferenceToPositions_def getAlignedPositionsToReference_def
      getCenteredPositions_def getCenteredReference_def
      getRotationMatrixReferenceToPositions_def getRotationMatrixPositionsToReference_def Let_def)

lemma run_calls_cd2:
  "run_calls diag_solver [SetPositionsCenter 0, SetReferenceCenter 0, DoCoreCalc True True]
     (RMSDCoreData_new halves halves pos2 ref2, 0) = Inr (cd2_core True, Suc 0)"
  using doCoreCalc_cd2 [of True] by (simp add: cd2_def)

lemma run_calls_cd2_distance:
  "run_calls diag_solver
     [SetPositionsCenter 0, SetReferenceCenter 0, DoCoreCalc True True, GetDistance True]
     (RMSDCoreData_new halves halves pos2 ref2, 0)
   = Inr ((cd2_core True)\<lparr>dist := Fin 16, distanceIsMSD := True, hasDistance := True\<rparr>, Suc 0)"
  using doCoreCalc_cd2 [of True] getDistance_value [of "cd2_core True" True]
  by (simp add: cd2_def cd2_core_fields len2 weighted_square_sum_cd2 Let_def)

text \<open>
  C7. Take a new core-data object and any sequence of calls on it that all returned.
  Then \<^verbatim>\<open>getDDistanceDPositions\<close> and \<^verbatim>\<open>getDDistanceDReference\<close> end in a fatal error
  exactly when \<^verbatim>\<open>doCoreCalc\<close> and \<^verbatim>\<open>getDistance\<close> have not both been called; the two
  rotation derivatives, the four read-backs of coordinates and the two accessors of the
  rotation matrix end in a fatal error exactly when \<^verbatim>\<open>doCoreCalc\<close> has not been called,
  whether or not \<^verbatim>\<open>getDistance\<close> has.
\<close>

theorem accessor_usage_order:
  assumes "run_calls diagMat cs (RMSDCoreData_new a dw p r, s) = Inr (cd, s')"
  shows "(is_fatal (getDDistanceDPositions cd) \<longleftrightarrow>
            \<not> ((\<exists>c \<in> set cs. is_DoCoreCalc c) \<and> (\<exists>c \<in> set cs. is_GetDistance c)))
       \<and> (is_fatal (getDDistanceDReference cd) \<longleftrightarrow>
            \<not> ((\<exists>c \<in> set cs. is_DoCoreCalc c) \<and> (\<exists>c \<in> set cs. is_GetDistance c)))
       \<and> (is_fatal (getDRotationDPosition t cd) \<longleftrightarrow> \<not> (\<exists>c \<in> set cs. is_DoCoreCalc c))
       \<and> (is_fatal (getDRotationDReference t cd) \<longleftrightarrow> \<not> (\<exists>c \<in> set cs. is_DoCoreCalc c))
       \<and> (is_fatal (getAlignedReferenceToPositions cd) \<longleftrightarrow> \<not> (\<exists>c \<in> set cs. is_DoCoreCalc c))
       \<and> (is_fatal (getAlignedPositionsToReference cd) \<longleftrightarrow> \<not> (\<exists>c \<in> set cs. is_DoCoreCalc c))
       \<and> (is_fatal (getCenteredPositions cd) \<longleftrightarrow> \<not> (\<exists>c \<in> set cs. is_DoCoreCalc c))
       \<and> (is_fatal (getCenteredReference cd) \<longleftrightarrow> \<not> (\<exists>c \<in> set cs. is_DoCoreCalc c))
       \<and> (is_fatal (getRotationMatrixReferenceToPositions cd) \<longleftrightarrow>
            \<not> (\<exists>c \<in> set cs. is_DoCoreCalc c))
       \<and> (is_fatal (getRotationMatrixPositionsToReference cd) \<longleftrightarrow>
            \<not> (\<exists>c \<in> set cs. is_DoCoreCalc c))"
proof -
  have new: "\<not> isInitialized (RMSDCoreData_new a dw p r)" "\<not> hasDistance (RMSDCoreData_new a dw p r)"
    by (simp_all add: RMSDCoreData_new_def)
  from run_calls_flags [OF assms] new
  have i: "isInitialized cd = (\<exists>c \<in> set cs. is_DoCoreCalc c)"
    and h: "hasDistance cd = (\<exists>c \<in> set cs. is_GetDistance c)"
    and hi: "hasDistance cd \<longrightarrow> isInitialized cd"
    by auto
  show ?thesis
    unfolding fatal_distance_derivatives fatal_initialized_only
    using i h hi by blast
qed

theorem accessor_usage_order_witness:
  "is_fatal (getDDistanceDPositions (cd2_core True))
   \<and> is_fatal (getDDistanceDReference (cd2_core True))
   \<and> \<not> is_fatal (getDRotationDPosition False (cd2_core True))
   \<and> \<not> is_fatal (getRotationMatrixReferenceToPositions (cd2_core True))
   \<and> \<not> is_fatal (getDDistanceDPositions
          ((cd2_core True)\<lparr>dist := Fin 16, distanceIsMSD := True, hasDistance := True\<rparr>))"
  using accessor_usage_order [OF run_calls_cd2, of False]
    accessor_usage_order [OF run_calls_cd2_distance, of False]
  by simp

section \<open>The method without rotation meets its description\<close>

lemma fold_four_sums:
  fixes a0 b0 c0 e0 :: "'a :: comm_monoid_add"
  shows "fold (\<lambda>i (a, b, c, e). (a + f i, b + g i, c + h i, e + k i)) xs (a0, b0, c0, e0)
     = (a0 + sum_list (map f xs), b0 + sum_list (map g xs),
        c0 + sum_list (map h xs), e0 + sum_list (map k xs))"
  by (induction xs arbitrary: a0 b0 c0 e0) (simp_all add: add.assoc)

lemma simple_centers_eq:
  "simple_centers al di pos ref n =
     (weighted_center n al pos, weighted_center n al ref,
      weighted_center n di pos, weighted_center n di ref)"
  by (simp add: simple_centers_def weighted_center_def Let_def fold_four_sums)

lemma fold_sum_update:
  fixes a :: "'a :: comm_monoid_add"
  assumes "n \<le> length xs"
  shows "fold (\<lambda>i (acc, ys). (acc + f i, ys[i := g i])) [0..<n] (a, xs)
     = (a + sum_list (map f [0..<n]), map g [0..<n] @ drop n xs)"
  using assms
proof (induction n)
  case 0
  then show ?case by simp
next
  case (Suc n)
  then have n: "n < length xs" by simp
  have "(map g [0..<n] @ drop n xs)[n := g n] = map g [0..<n] @ g n # drop (Suc n) xs"
    using n by (simp add: list_update_append upd_conv_take_nth_drop min_def)
  with Suc show ?case
    by (simp add: add.assoc)
qed

lemma fold_scale_update:
  assumes "n \<le> length xs"
  shows "fold (\<lambda>i ys. ys[i := h (ys ! i)]) [0..<n] xs = map (\<lambda>i. h (xs ! i)) [0..<n] @ drop n xs"
  using assms
proof (induction n)
  case 0
  then show ?case by simp
next
  case (Suc n)
  then have n: "n < length xs" by simp
  have "(map (\<lambda>i. h (xs ! i)) [0..<n] @ drop n xs)[n := h ((map (\<lambda>i. h (xs ! i)) [0..<n] @ drop n xs) ! n)]
          = map (\<lambda>i. h (xs ! i)) [0..<n] @ h (xs ! n) # drop (Suc n) xs"
    using n by (simp add: list_update_append nth_append upd_conv_take_nth_drop min_def)
  with Suc show ?case
    by simp
qed

lemma simple_dist_loop_eq:
  assumes "n \<le> length ders"
  shows "simple_dist_loop al di pos ref (weighted_center n al pos) (weighted_center n al ref)
           (simple_shift al di pos ref n) n (Fin 0, ders)
     = (simple_msd al di pos ref n, map (simple_gradient al di pos ref n) [0..<n] @ drop n ders)"
proof -
  have "simple_dist_loop al di pos ref (weighted_center n al pos) (weighted_center n al ref)
           (simple_shift al di pos ref n) n
        = fold (\<lambda>i (acc, ys). (acc + di ! i * modulo2 (simple_residual al pos ref n i),
                                ys[i := simple_gradient al di pos ref n i])) [0..<n]"
    by (simp add: simple_dist_loop_def simple_residual_def simple_gradient_def Let_def)
  then show ?thesis
    using fold_sum_update [OF assms, of "\<lambda>i. di ! i * modulo2 (simple_residual al pos ref n i)"
        "simple_gradient al di pos ref n" "Fin 0"]
    by (simp add: simple_msd_def zero_dbl_def [symmetric])
qed

lemma scale_derivatives_eq:
  assumes "length xs = n"
  shows "scale_derivatives xx n (map g [0..<n] @ rest) = map (\<lambda>i. vmul (g i) xx) [0..<n] @ rest"
proof -
  have "map (\<lambda>i. vmul ((map g [0..<n] @ rest) ! i) xx) [0..<n] = map (\<lambda>i. vmul (g i) xx) [0..<n]"
    by (rule map_cong) (simp_all add: nth_append)
  then show ?thesis
    using fold_scale_update [of n "map g [0..<n] @ rest" "\<lambda>v. vmul v xx"]
    by (simp add: scale_derivatives_def)
qed

lemma simpleAlignment_eq:
  assumes "length ref \<le> length al" "length ref \<le> length di" "length ref \<le> length pos"
    "length ref \<le> length ders"
  shows "simpleAlignment al di pos ref ders squared =
     (let n = length ref;
          msd = simple_msd al di pos ref n
      in if squared
         then Inr (msd, map (simple_gradient al di pos ref n) [0..<n] @ drop n ders)
         else Inr (dsqrt msd,
                   map (\<lambda>i. vmul (simple_gradient al di pos ref n i) (Fin (1/2) / dsqrt msd)) [0..<n]
                     @ drop n ders))"
  using assms
  by (simp add: simpleAlignment_def Let_def simple_centers_eq simple_shift_def [symmetric]
      simple_dist_loop_eq scale_derivatives_eq [where xs = ref])

lemma sqrt_16: "sqrt 16 = 4"
proof -
  have "sqrt (4 * 4) = \<bar>4 :: real\<bar>"
    by (rule real_sqrt_abs2)
  then show ?thesis by simp
qed

lemma simple2_values:
  "weighted_center 2 halves pos2 = 0" "weighted_center 2 halves ref2 = 0"
  "simple_shift halves halves pos2 ref2 2 = 0"
  "simple_residual halves pos2 ref2 2 0 = Vector (Fin (-4)) (Fin 0) (Fin 0)"
  "simple_residual halves pos2 ref2 2 (Suc 0) = Vector (Fin 4) (Fin 0) (Fin 0)"
  by (simp_all add: weighted_center_def simple_shift_def simple_residual_def upt_0_2
      halves_def pos2_def ref2_def zero_Vector_def minus_dbl_def)

lemma simple2_results:
  "simple_msd halves halves pos2 ref2 2 = Fin 16"
  "simple_gradient halves halves pos2 ref2 2 0 = Vector (Fin (-4)) (Fin 0) (Fin 0)"
  "simple_gradient halves halves pos2 ref2 2 (Suc 0) = Vector (Fin 4) (Fin 0) (Fin 0)"
  by (simp_all add: simple_msd_def simple_gradient_def simple2_values upt_0_2 modulo2_def)
    (simp_all add: halves_def zero_Vector_def)

text \<open>
  C6. Under the method SIMPLE, with an entry for every atom of the reference in the
  weights, the positions and the derivatives: \<^verbatim>\<open>calculate\<close> returns the sum, weighted by
  \<open>displace\<close>, of \<open>|d\<^sub>i|\<^sup>2\<close>, where \<open>d\<^sub>i\<close> is the position less its centre under \<open>align\<close> minus
  the reference less its centre under \<open>align\<close>, and sets the derivative of atom \<open>i\<close> to
  \<open>2 (displace\<^sub>i d\<^sub>i + align\<^sub>i shift)\<close>; when \<open>squared\<close> is false it returns the square root
  of that sum, and every derivative is multiplied by a half over the square root.
  Entries of \<^verbatim>\<open>derivatives\<close> past the atoms stay as they were.
\<close>

theorem simple_calculate_spec:
  assumes "alignmentMethod obj = SIMPLE"
    and "length (this_reference obj) \<le> length (this_align obj)"
    and "length (this_reference obj) \<le> length (this_displace obj)"
    and "length (this_reference obj) \<le> length pos"
    and "length (this_reference obj) \<le> length ders"
  shows "calculate diagMat obj pos ders squared s =
     (let n = length (this_reference obj);
          msd = simple_msd (this_align obj) (this_displace obj) pos (this_reference obj) n;
          grad = simple_gradient (this_align obj) (this_displace obj) pos (this_reference obj) n
      in if squared
         then Inr (msd, map grad [0..<n] @ drop n ders)
         else Inr (dsqrt msd,
                   map (\<lambda>i. vmul (grad i) (Fin (1/2) / dsqrt msd)) [0..<n] @ drop n ders), s)"
  using assms by (simp add: calculate_def simpleAlignment_eq Let_def)

theorem simple_calculate_spec_witness:
  "calculate failing_solver simple2 pos2 [0, 0] True 0
     = (Inr (Fin 16, [Vector (Fin (-4)) (Fin 0) (Fin 0), Vector (Fin 4) (Fin 0) (Fin 0)]), 0)
   \<and> calculate failing_solver simple2 pos2 [0, 0] False 0
     = (Inr (Fin 4, [Vector (Fin (-1/2)) (Fin 0) (Fin 0), Vector (Fin (1/2)) (Fin 0) (Fin 0)]), 0)"
  using simple_calculate_spec [of simple2 pos2 "[0, 0]" failing_solver True 0]
    simple_calculate_spec [of simple2 pos2 "[0, 0]" failing_solver False 0]
  by (simp add: simple2_def len2 Let_def simple2_results upt_0_2 sqrt_16)

section \<open>Positions that are the reference\<close>

lemma is_Fin_iff: "is_Fin a \<longleftrightarrow> (\<exists>x. a = Fin x)"
  by (cases a) simp_all

lemma fin_vec_iff: "fin_vec v \<longleftrightarrow> (\<exists>x y z. v = Vector (Fin x) (Fin y) (Fin z))"
  by (cases v) (auto simp add: is_Fin_iff)

lemma fin_vec_plus: "fin_vec u \<Longrightarrow> fin_vec v \<Longrightarrow> fin_vec (u + v)"
  by (auto simp add: fin_vec_iff)

lemma fin_vec_minus: "fin_vec u \<Longrightarrow> fin_vec v \<Longrightarrow> fin_vec (u - v)"
  by (auto simp add: fin_vec_iff minus_dbl_def)

lemma fin_vec_vmul: "fin_vec v \<Longrightarrow> is_Fin w \<Longrightarrow> fin_vec (vmul v w)"
  by (auto simp add: fin_vec_iff is_Fin_iff)

lemma fin_vec_zero: "fin_vec 0"
  by (simp add: zero_Vector_def)

lemma fin_vec_sum_list: "(\<forall>v \<in> set vs. fin_vec v) \<Longrightarrow> fin_vec (sum_list vs)"
  by (induction vs) (simp_all add: fin_vec_zero fin_vec_plus)

lemma fin_vec_weighted_center:
  assumes "n \<le> length ws" "n \<le> length ps" "list_all is_Fin ws" "list_all fin_vec ps"
  shows "fin_vec (weighted_center n ws ps)"
  unfolding weighted_center_def
proof (rule fin_vec_sum_list, clarsimp)
  fix i assume "i < n"
  with assms have "fin_vec (ps ! i)" "is_Fin (ws ! i)"
    by (simp_all add: list_all_length)
  then show "fin_vec (vmul (ps ! i) (ws ! i))"
    by (rule fin_vec_vmul)
qed

lemma fin_vec_minus_self: "fin_vec v \<Longrightarrow> v - v = 0"
  by (auto simp add: fin_vec_iff minus_dbl_def zero_Vector_def)

lemma modulo2_zero: "modulo2 0 = Fin 0"
  by (simp add: modulo2_def zero_Vector_def)

lemma is_Fin_times_zero: "is_Fin w \<Longrightarrow> w * Fin 0 = 0"
  by (auto simp add: is_Fin_iff zero_dbl_def)

lemma smul_zero: "is_Fin w \<Longrightarrow> smul w 0 = 0"
  by (auto simp add: is_Fin_iff zero_Vector_def)

lemma identical_sets:
  assumes len: "length pos \<le> length al" "length pos \<le> length di"
    and fin: "list_all fin_vec pos" "list_all is_Fin al" "list_all is_Fin di"
  shows "simple_msd al di pos pos (length pos) = Fin 0"
    and "i < length pos \<Longrightarrow> simple_gradient al di pos pos (length pos) i = 0"
proof -
  let ?n = "length pos"
  have ca: "fin_vec (weighted_center ?n al pos)" and cd: "fin_vec (weighted_center ?n di pos)"
    using len fin by (simp_all add: fin_vec_weighted_center)
  have res: "simple_residual al pos pos ?n j = 0" if "j < ?n" for j
  proof -
    from that fin have "fin_vec (pos ! j)"
      by (simp add: list_all_length)
    with ca have "fin_vec (pos ! j - weighted_center ?n al pos)"
      by (simp add: fin_vec_minus)
    then show ?thesis
      by (simp add: simple_residual_def fin_vec_minus_self)
  qed
  have shift: "simple_shift al di pos pos ?n = 0"
    using ca cd by (simp add: simple_shift_def fin_vec_minus_self fin_vec_zero)
  have eq: "map (\<lambda>j. di ! j * modulo2 (simple_residual al pos pos ?n j)) [0..<?n]
          = map (\<lambda>j. 0) [0..<?n]"
  proof (rule map_cong [OF refl])
    fix j assume "j \<in> set [0..<?n]"
    then have j: "j < ?n" by simp
    with len fin have "is_Fin (di ! j)"
      by (simp add: list_all_length)
    with res [OF j] show "di ! j * modulo2 (simple_residual al pos pos ?n j) = 0"
      by (simp add: modulo2_zero is_Fin_times_zero)
  qed
  have "sum_list (map (\<lambda>j. 0 :: dbl) [0..<?n]) = 0"
    by (rule sum_list_0)
  then show "simple_msd al di pos pos ?n = Fin 0"
    unfolding simple_msd_def eq by (simp only: zero_dbl_def)
  show "simple_gradient al di pos pos ?n i = 0" if "i < ?n"
  proof -
    from that len fin have "is_Fin (di ! i)" "is_Fin (al ! i)"
      by (simp_all add: list_all_length)
    with res [OF that] shift show ?thesis
      by (simp add: simple_gradient_def smul_zero)
  qed
qed

lemma upt_0_3: "[0..<3] = [0, 1, 2]"
  by (simp add: upt_rec)

text \<open>
  C4, as the code has it. Under the method SIMPLE, when the positions are the stored
  reference, with finite coordinates and weights and an entry for every atom:
  \<^verbatim>\<open>calculate\<close> returns the distance zero for both values of \<open>squared\<close>, and with
  \<open>squared\<close> true the derivative of every atom is the zero vector.
\<close>

theorem simple_identical_sets:
  assumes "alignmentMethod obj = SIMPLE"
    and "this_reference obj = pos"
    and "length pos \<le> length (this_align obj)"
    and "length pos \<le> length (this_displace obj)"
    and "length pos \<le> length ders"
    and "list_all fin_vec pos"
    and "list_all is_Fin (this_align obj)"
    and "list_all is_Fin (this_displace obj)"
  shows "calculate diagMat obj pos ders True s
           = (Inr (Fin 0, replicate (length pos) 0 @ drop (length pos) ders), s)
       \<and> map_sum id fst (fst (calculate diagMat obj pos ders False s)) = Inr (Fin 0)"
proof -
  have g: "map (simple_gradient (this_align obj) (this_displace obj) pos pos (length pos))
             [0..<length pos] = map (\<lambda>i. 0) [0..<length pos]"
    using assms by (intro map_cong [OF refl]) (simp add: identical_sets)
  have m: "simple_msd (this_align obj) (this_displace obj) pos pos (length pos) = Fin 0"
    using assms by (simp add: identical_sets)
  show ?thesis
    using assms by (simp add: calculate_def simpleAlignment_eq Let_def g m map_replicate_const)
qed

theorem simple_identical_sets_witness:
  "calculate failing_solver simple3 pts3 [0, 0, 0] True 0 = (Inr (Fin 0, [0, 0, 0]), 0)
   \<and> map_sum id fst (fst (calculate failing_solver simple3 pts3 [0, 0, 0] False 0)) = Inr (Fin 0)"
  using simple_identical_sets [of simple3 pts3 "[0, 0, 0]" failing_solver 0]
  by (simp add: simple3_def pts3_def w3_def numeral_3_eq_3)

text \<open>
  The claim as it stands fails under SIMPLE with \<open>squared\<close> false: the distance is zero,
  so the factor \<open>0.5/dist\<close> is infinite, and zero times infinity is NaN in every
  component of every derivative.
\<close>

theorem identical_sets_sqrt_counterexample:
  "calculate failing_solver simple3 pts3 [0, 0, 0] False 0
     = (Inr (Fin 0, [Vector NaN NaN NaN, Vector NaN NaN NaN, Vector NaN NaN NaN]), 0)
   \<and> Vector NaN NaN NaN \<noteq> 0"
  by (simp add: calculate_def simple3_def simpleAlignment_def simple_centers_def
      simple_dist_loop_def scale_derivatives_def Let_def pts3_def w3_def upt_0_3
      zero_Vector_def minus_dbl_def modulo2_def numeral_3_eq_3)

section \<open>New alignment weights\<close>

lemma setReference_pts3: "setReference pts3 (clear (RMSD_new False False)) = Inr centered3"
  by (simp add: setReference_def clear_def RMSD_new_def centered3_def pts3_def Let_def upt_0_3
      numeral_3_eq_3 zero_Vector_def minus_dbl_def)

lemma setReference_shifted2:
  "setReference [Vector (Fin 1) (Fin 0) (Fin 0), Vector (Fin 3) (Fin 0) (Fin 0)]
     (clear (RMSD_new False False)) = Inr shifted2"
  by (simp add: setReference_def clear_def RMSD_new_def shifted2_def ref2_def halves_def Let_def
      upt_0_2 numeral_2_eq_2 zero_Vector_def minus_dbl_def)









section \<open>The optimal methods of the facade, as they are\<close>

lemma optimalAlignment_fatal:
  "is_fatal (fst (optimalAlignment diagMat safe' alEqDis' obj al di pos ref ders squared s))"
  by (simp add: optimalAlignment_def doCoreCalc_def Let_def setPositionsCenter_def
      setReferenceCenterIsRemoved_def setPositionsCenterIsRemoved_def RMSDCoreData_new_def)

text \<open>
  C1 fails on the code. Whatever the object, the positions and the eigensolver,
  \<^verbatim>\<open>calculate\<close> under OPTIMAL or OPTIMAL_FAST ends in a fatal error and returns no
  distance; on the two atoms above, it is the first assertion of \<^verbatim>\<open>doCoreCalc\<close> that
  fails, before the eigensolver is reached.
\<close>

theorem calculate_optimal_is_fatal:
  "is_fatal (fst (calculate diagMat (obj\<lparr>alignmentMethod := OPTIMAL\<rparr>) pos ders squared s))
   \<and> is_fatal (fst (calculate diagMat (obj\<lparr>alignmentMethod := OPTIMAL_FAST\<rparr>) pos ders squared s))
   \<and> calculate diag_solver optimal2 pos2 [0, 0] True 0
        = (Inl (Fatal ''the center of the reference frame must be already provided at this stage''), 0)"
proof -
  have "calculate diag_solver optimal2 pos2 [0, 0] True 0
        = (Inl (Fatal ''the center of the reference frame must be already provided at this stage''), 0)"
    by (simp add: calculate_def optimal2_def simple2_def optimalAlignment_def doCoreCalc_def
        Let_def setPositionsCenter_def setReferenceCenterIsRemoved_def
        setPositionsCenterIsRemoved_def RMSDCoreData_new_def)
  then show ?thesis
    by (simp add: calculate_def optimalAlignment_fatal)
qed

text \<open>
  C2 fails on the code. The facade calls \<^verbatim>\<open>setPositionsCenter\<close> twice and
  \<^verbatim>\<open>setReferenceCenter\<close> never: in the object it hands to \<^verbatim>\<open>doCoreCalc\<close> the centre of
  the reference is not marked as calculated, and \<^verbatim>\<open>doCoreCalc\<close> ends in its first fatal
  assertion, with the eigensolver not invoked.
\<close>

theorem facade_leaves_reference_center_unset:
  "\<not> creference_is_calculated
       (setPositionsCenter (positions_center obj)
         (setReferenceCenterIsRemoved (reference_center_is_removed obj)
           (setPositionsCenter (positions_center obj)
             (setPositionsCenterIsRemoved (positions_center_is_removed obj)
               (RMSDCoreData_new al di pos ref)))))
   \<and> doCoreCalc diagMat safe' alEqDis'
       (setPositionsCenter (positions_center obj)
         (setReferenceCenterIsRemoved (reference_center_is_removed obj)
           (setPositionsCenter (positions_center obj)
             (setPositionsCenterIsRemoved (positions_center_is_removed obj)
               (RMSDCoreData_new al di pos ref))))) s
     = (Inl (Fatal ''the center of the reference frame must be already provided at this stage''), s)"
  by (simp add: doCoreCalc_def Let_def setPositionsCenter_def
      setReferenceCenterIsRemoved_def setPositionsCenterIsRemoved_def RMSDCoreData_new_def)

section \<open>The two derivatives of the distance, as they are\<close>

lemma getDistance_cd2_rmsd: "getDistance False (cd2_core False) = Inr (Fin 4, cd2_rmsd)"
  using getDistance_value [of "cd2_core False" False]
  by (simp add: cd2_core_fields len2 Let_def sqrt_16 cd2_rmsd_def)

lemma cd2_rmsd_fields:
  "isInitialized cd2_rmsd" "alEqDis cd2_rmsd" "hasDistance cd2_rmsd" "\<not> distanceIsMSD cd2_rmsd"
  "reference cd2_rmsd = ref2" "align cd2_rmsd = halves"
  "d cd2_rmsd = [Vector (Fin (-4)) (Fin 0) (Fin 0), Vector (Fin 4) (Fin 0) (Fin 0)]"
  "dist cd2_rmsd = Fin 4"
  "rotation cd2_rmsd = Tensor (Fin 1) (Fin 0) (Fin 0) (Fin 0) (Fin 1) (Fin 0) (Fin 0) (Fin 0) (Fin 1)"
  by (simp_all add: cd2_rmsd_def cd2_core_def cd2_def setReferenceCenter_def setPositionsCenter_def
      RMSDCoreData_new_def)

text \<open>
  C3 fails on the code. On the two atoms above, with equal weights and the distance
  taken with \<open>squared\<close> false (squared distance 16, distance 4, rotation the identity):
  \<^verbatim>\<open>getDDistanceDPositions\<close> applies the factor \<open>2 * 0.5/dist = 1/4\<close> and returns
  \<open>\<mp>1/2\<close>; \<^verbatim>\<open>getDDistanceDReference\<close> applies \<open>2 * 0.5/sqrt(dist) = 1/2\<close>, the root taken
  a second time, and returns \<open>\<plusminus>1\<close>, twice the negative of the other.
\<close>

theorem distance_derivative_prefactors_differ:
  "getDistance False (cd2_core False) = Inr (Fin 4, cd2_rmsd)
   \<and> getDDistanceDPositions cd2_rmsd
        = Inr [Vector (Fin (-1/2)) (Fin 0) (Fin 0), Vector (Fin (1/2)) (Fin 0) (Fin 0)]
   \<and> getDDistanceDReference cd2_rmsd
        = Inr [Vector (Fin 1) (Fin 0) (Fin 0), Vector (Fin (-1)) (Fin 0) (Fin 0)]"
proof -
  have p: "getDDistanceDPositions cd2_rmsd
        = Inr [Vector (Fin (-1/2)) (Fin 0) (Fin 0), Vector (Fin (1/2)) (Fin 0) (Fin 0)]"
    by (simp add: getDDistanceDPositions_def Let_def cd2_rmsd_fields len2 upt_0_2 halves_def
        zero_Vector_def numeral_2_eq_2)
  have r: "getDDistanceDReference cd2_rmsd
        = Inr [Vector (Fin 1) (Fin 0) (Fin 0), Vector (Fin (-1)) (Fin 0) (Fin 0)]"
    by (simp add: getDDistanceDReference_def Let_def cd2_rmsd_fields len2 upt_0_2 halves_def
        zero_Vector_def numeral_2_eq_2)
  from getDistance_cd2_rmsd p r show ?thesis
    by simp
qed

end
